theory Spec2Isabelle
  imports Complex_Main
begin

section \<open>A local HTTPS development server: https-server.py\<close>

text \<open>
  The program is one Python file. It declares three constants, a request handler class
  \<open>MyHTTPRequestHandler\<close> that overrides the single method \<open>end_headers\<close> of
  \<open>http.server.SimpleHTTPRequestHandler\<close>, and the procedure \<open>run_server\<close>.
  Everything else the handler does is inherited, so the methods of the base classes that
  the override calls, or that call the override, are embedded too, from CPython's
  \<open>Lib/http/server.py\<close> and \<open>Lib/posixpath.py\<close> (release 3.11), each under the name
  it has there.

  Conventions.
  \<^item> A Python \<open>bytes\<close> value and a Python \<open>str\<close> of Latin-1 characters are both a
    \<open>string\<close>: a list of 8-bit characters. The request line is decoded as ISO-8859-1 by the
    handler, so the two coincide on everything read from the socket.
  \<^item> A text that \<open>print\<close> writes is the \<open>string\<close> of its bytes in the source file, which
    is in UTF-8: the one character of the program that is not ASCII, U+274C, is three
    bytes.
  \<^item> What the operating system and the rest of the standard library answer (the file
    system, the clock, the MIME table, the table of reason phrases, \<open>repr\<close>, URL quoting)
    is a parameter: a field of the record \<open>runtime\<close>.
  \<^item> An exception is a value: a procedure returns the exception it raised, if any,
    together with the state it left behind.
  \<^item> Log lines written to standard error are left out: no statement below is about them.

  What is taken for granted of the machine.
  \<^item> The client reads what the handler writes: no write to the connection fails.
  \<^item> The clock reads a time that \<open>email.utils.formatdate\<close> can format (before the year
    10000), so \<open>date_time_string()\<close> without a time stamp raises nothing.
  \<^item> The working directory exists, so \<open>os.getcwd()\<close> raises nothing.
  \<^item> Reading a file that was opened yields its bytes.
  \<^item> Standard output is open; \<open>print\<close> fails on it only where its encoding cannot
    encode the text.
  Everything else that can fail is modelled with its failure.
\<close>

subsection \<open>Python string operations\<close>

definition CR :: char where
  "CR = CHR 0x0D"

definition LF :: char where
  "LF = CHR 0x0A"

definition CRLF :: string where
  "CRLF = [CR, LF]"

text \<open>\<open>str.isspace\<close> on one character below U+0100: the ASCII controls 9 to 13 and 28 to
  31, the space, NEL (0x85) and the no-break space (0xA0).\<close>

definition py_isspace :: "char \<Rightarrow> bool" where
  "py_isspace c =
     (let n = (of_char c :: nat)
      in (9 \<le> n \<and> n \<le> 13) \<or> (28 \<le> n \<and> n \<le> 32) \<or> n = 133 \<or> n = 160)"

text \<open>\<open>str.isdigit\<close> below U+0100: the ASCII digits and the superscripts two, three and
  one (0xB2, 0xB3, 0xB9). \<open>int\<close> accepts only the ASCII digits among them.\<close>

definition py_isdigit :: "char \<Rightarrow> bool" where
  "py_isdigit c =
     (let n = (of_char c :: nat)
      in (48 \<le> n \<and> n \<le> 57) \<or> n = 178 \<or> n = 179 \<or> n = 185)"

definition ascii_digit :: "char \<Rightarrow> bool" where
  "ascii_digit c = (let n = (of_char c :: nat) in 48 \<le> n \<and> n \<le> 57)"

text \<open>\<open>str.lower\<close> below U+0100: A to Z, and the Latin-1 capitals 0xC0 to 0xDE except the
  multiplication sign 0xD7.\<close>

definition lower_char :: "char \<Rightarrow> char" where
  "lower_char c =
     (let n = (of_char c :: nat)
      in if (65 \<le> n \<and> n \<le> 90) \<or> (192 \<le> n \<and> n \<le> 222 \<and> n \<noteq> 215)
         then char_of (n + 32) else c)"

definition lower :: "string \<Rightarrow> string" where
  "lower s = map lower_char s"

definition startswith :: "string \<Rightarrow> string \<Rightarrow> bool" where
  "startswith s p = (take (length p) s = p)"

definition endswith :: "string \<Rightarrow> string \<Rightarrow> bool" where
  "endswith s p = (length p \<le> length s \<and> drop (length s - length p) s = p)"

text \<open>\<open>s.rstrip(chars)\<close>, \<open>s.lstrip(chars)\<close> with the set of characters as a predicate.\<close>

definition rstrip :: "(char \<Rightarrow> bool) \<Rightarrow> string \<Rightarrow> string" where
  "rstrip P s = rev (dropWhile P (rev s))"

definition lstrip :: "(char \<Rightarrow> bool) \<Rightarrow> string \<Rightarrow> string" where
  "lstrip P s = dropWhile P s"

text \<open>\<open>s.split()\<close>: the maximal runs of characters that are not white space.\<close>

fun split_ws :: "string \<Rightarrow> string \<Rightarrow> string list" where
  "split_ws w [] = (if w = [] then [] else [w])"
| "split_ws w (c # cs) =
     (if py_isspace c then (if w = [] then split_ws [] cs else w # split_ws [] cs)
      else split_ws (w @ [c]) cs)"

definition py_split :: "string \<Rightarrow> string list" where
  "py_split s = split_ws [] s"

text \<open>\<open>s.split(sep)\<close> for a separator of one character: never empty, one more component
  than there are separators.\<close>

fun split_sep :: "char \<Rightarrow> string \<Rightarrow> string \<Rightarrow> string list" where
  "split_sep sep w [] = [w]"
| "split_sep sep w (c # cs) =
     (if c = sep then w # split_sep sep [] cs else split_sep sep (w @ [c]) cs)"

definition split_on :: "char \<Rightarrow> string \<Rightarrow> string list" where
  "split_on sep s = split_sep sep [] s"

text \<open>\<open>s.split(sep, 1)\<close>: the text before the first separator, and the text after it when
  there is one.\<close>

definition split_once :: "char \<Rightarrow> string \<Rightarrow> string list" where
  "split_once sep s =
     (if sep \<in> set s then [takeWhile (\<lambda>c. c \<noteq> sep) s, tl (dropWhile (\<lambda>c. c \<noteq> sep) s)]
      else [s])"

text \<open>\<open>sep.join(xs)\<close> for a separator of one character.\<close>

fun join_sep :: "char \<Rightarrow> string list \<Rightarrow> string" where
  "join_sep sep [] = []"
| "join_sep sep [x] = x"
| "join_sep sep (x # y # ys) = x @ sep # join_sep sep (y # ys)"

text \<open>\<open>str(n)\<close> and \<open>'%d' % n\<close> for a natural number.\<close>

function str_of_nat :: "nat \<Rightarrow> string" where
  "str_of_nat n =
     (if n < 10 then [char_of (48 + n)] else str_of_nat (n div 10) @ [char_of (48 + n mod 10)])"
  by pat_completeness auto
termination
  by (relation "measure id") auto

declare str_of_nat.simps [simp del]

text \<open>\<open>int(s)\<close> on a string that passed \<open>isdigit\<close>: \<open>ValueError\<close> (here \<open>None\<close>) unless
  every character is an ASCII digit and there is one at least.\<close>

definition py_int :: "string \<Rightarrow> nat option" where
  "py_int s =
     (if s \<noteq> [] \<and> list_all ascii_digit s
      then Some (foldl (\<lambda>a c. 10 * a + (of_char c - 48)) 0 s) else None)"

text \<open>The order of \<open>str\<close>: lexicographic on the code points.\<close>

fun str_less :: "string \<Rightarrow> string \<Rightarrow> bool" where
  "str_less [] [] = False"
| "str_less [] (y # ys) = True"
| "str_less (x # xs) [] = False"
| "str_less (x # xs) (y # ys) =
     ((of_char x :: nat) < of_char y \<or> (x = y \<and> str_less xs ys))"

definition str_ge :: "string \<Rightarrow> string \<Rightarrow> bool" where
  "str_ge a b = (\<not> str_less a b)"

text \<open>\<open>s.replace(c, r)\<close> for one character \<open>c\<close>, and \<open>html.escape(s, quote=False)\<close>: its
  three calls of \<open>replace\<close>, the ampersand first.\<close>

definition replace_char :: "char \<Rightarrow> string \<Rightarrow> string \<Rightarrow> string" where
  "replace_char c r s = concat (map (\<lambda>x. if x = c then r else [x]) s)"

definition html_escape :: "string \<Rightarrow> string" where
  "html_escape s =
     replace_char (CHR ''>'') ''&gt;''
       (replace_char (CHR ''<'') ''&lt;'' (replace_char (CHR ''&'') ''&amp;'' s))"

text \<open>\<open>list.sort(key=lambda a: a.lower())\<close>: the sort is stable, so it is any stable sort
  by that key; here, insertion from the right.\<close>

fun insort_lower :: "string \<Rightarrow> string list \<Rightarrow> string list" where
  "insort_lower a [] = [a]"
| "insort_lower a (b # bs) =
     (if str_less (lower b) (lower a) then b # insort_lower a bs else a # b # bs)"

definition sort_lower :: "string list \<Rightarrow> string list" where
  "sort_lower xs = foldr insort_lower xs []"

text \<open>The characters every encoding of a standard output can encode: the ASCII ones.\<close>

definition ascii :: "char \<Rightarrow> bool" where
  "ascii c = ((of_char c :: nat) < 128)"

subsection \<open>posixpath\<close>

text \<open>\<open>posixpath.join(a, b)\<close> with one component \<open>b\<close>.\<close>

definition posix_join :: "string \<Rightarrow> string \<Rightarrow> string" where
  "posix_join a b =
     (if startswith b ''/'' then b
      else if a = [] \<or> endswith a ''/'' then a @ b
      else a @ ''/'' @ b)"

text \<open>\<open>posixpath.dirname(p)\<close>: \<open>i = p.rfind('/') + 1\<close>, \<open>head = p[:i]\<close>, stripped of its
  trailing slashes unless it consists of slashes only.\<close>

definition rfind_slash_plus1 :: "string \<Rightarrow> nat" where
  "rfind_slash_plus1 p = length p - length (takeWhile (\<lambda>c. c \<noteq> CHR ''/'') (rev p))"

definition dirname :: "string \<Rightarrow> string" where
  "dirname p =
     (let head = take (rfind_slash_plus1 p) p
      in if head \<noteq> [] \<and> head \<noteq> replicate (length head) (CHR ''/'')
         then rstrip (\<lambda>c. c = CHR ''/'') head else head)"

definition curdir :: string where
  "curdir = ''.''"

definition pardir :: string where
  "pardir = ''..''"

text \<open>\<open>posixpath.normpath\<close>: the loop over the components, with \<open>new_comps\<close> as the
  accumulator, then the function itself.\<close>

fun normpath_comps :: "nat \<Rightarrow> string list \<Rightarrow> string list \<Rightarrow> string list" where
  "normpath_comps initial_slashes [] new_comps = new_comps"
| "normpath_comps initial_slashes (c # comps) new_comps =
     (if c = [] \<or> c = ''.'' then normpath_comps initial_slashes comps new_comps
      else if c \<noteq> ''..'' \<or> (initial_slashes = 0 \<and> new_comps = [])
              \<or> (new_comps \<noteq> [] \<and> last new_comps = ''..'')
      then normpath_comps initial_slashes comps (new_comps @ [c])
      else if new_comps \<noteq> [] then normpath_comps initial_slashes comps (butlast new_comps)
      else normpath_comps initial_slashes comps new_comps)"

definition normpath :: "string \<Rightarrow> string" where
  "normpath path =
     (if path = [] then ''.''
      else
        let initial_slashes =
              (if startswith path ''/''
               then (if startswith path ''//'' \<and> \<not> startswith path ''///'' then 2 else 1)
               else (0::nat));
            comps = normpath_comps initial_slashes (split_on (CHR ''/'') path) [];
            joined = join_sep (CHR ''/'') comps;
            path' = (if initial_slashes \<noteq> 0
                     then replicate initial_slashes (CHR ''/'') @ joined else joined)
        in if path' = [] then ''.'' else path')"

subsection \<open>What the operating system and the library answer\<close>

datatype exc =
  AttributeError | ValueError | OSError | SSLError | KeyboardInterrupt | UnicodeEncodeError
  | OtherException

text \<open>What \<open>os.fstat\<close> returns, as far as \<open>send_head\<close> reads it: the size (\<open>fs[6]\<close>) and
  the time of the last modification, a number of seconds that may have a fraction and may
  be negative. An open file as the handler uses it: the bytes \<open>read\<close> yields up to the
  end of the file, and what \<open>os.fstat\<close> does on its descriptor, which may raise.\<close>

record stat_result =
  st_size :: nat
  st_mtime :: real

record file_obj =
  contents :: string
  fstat :: "exc + stat_result"

text \<open>
  \<^item> \<open>directory\<close>: \<open>os.getcwd()\<close> when the handler is constructed (\<open>self.directory\<close>).
  \<^item> \<open>isdir\<close>, \<open>isfile\<close>, \<open>islink\<close>, \<open>open_rb\<close>, \<open>listdir\<close>: \<open>os.path.isdir\<close>,
    \<open>os.path.isfile\<close>, \<open>os.path.islink\<close>, \<open>open(path, 'rb')\<close> and \<open>os.listdir\<close>; the last
    two raise. An \<open>OSError\<close> stands for that class and its subclasses
    (\<open>FileNotFoundError\<close>, \<open>PermissionError\<close>, \<open>IsADirectoryError\<close>); \<open>open\<close> raises a
    \<open>ValueError\<close> on a path that holds a null character.
  \<^item> \<open>unquote_escapes\<close>: \<open>urllib.parse.unquote\<close> on a string that has a percent sign.
  \<^item> \<open>guess_type\<close>: the MIME type \<open>SimpleHTTPRequestHandler.guess_type\<close> finds for a path.
  \<^item> \<open>version_string\<close>, \<open>date_time_now\<close>: the values of the \<open>Server\<close> and \<open>Date\<close>
    headers; the second is \<open>date_time_string()\<close>, of the time the clock reads.
  \<^item> \<open>date_time_string t\<close>: \<open>date_time_string(t)\<close> for a time stamp \<open>t\<close>, which is
    \<open>email.utils.formatdate(t, usegmt=True)\<close>; it raises on a time stamp it cannot
    format (\<open>ValueError\<close> past the year 9999).
  \<^item> \<open>responses\<close>: the table from a status code to its phrase and its description.
  \<^item> \<open>repr\<close>: Python's \<open>repr\<close> of a \<open>str\<close>.
  \<^item> \<open>error_page code message explain\<close>: \<open>error_message_format\<close> filled in and encoded.
  \<^item> \<open>urlsplit_path\<close>: \<open>urllib.parse.urlsplit(p).path\<close>; \<open>redirect_url\<close>: the URL
    \<open>send_head\<close> rebuilds with a slash added to that path.
  \<^item> \<open>quote\<close>: \<open>urllib.parse.quote(s, errors='surrogatepass')\<close>.
  \<^item> \<open>filesystemencoding\<close>: \<open>sys.getfilesystemencoding()\<close>; \<open>encode\<close>:
    \<open>s.encode(enc, 'surrogateescape')\<close> with that encoding, which raises
    \<open>UnicodeEncodeError\<close> on a text it cannot encode.
  \<^item> \<open>not_modified_since v t\<close>: the test of \<open>send_head\<close> on the value \<open>v\<close> of the header
    \<open>If-Modified-Since\<close> and the time stamp \<open>t\<close> of the file. It is \<open>Inr False\<close> where
    \<open>v\<close> does not parse as a date or parses as one that is not in UTC; else
    \<open>datetime.fromtimestamp(t, utc)\<close> is computed, which raises on a time stamp out of its
    range, and the answer is whether that time, cut to whole seconds, is not after the
    date.
\<close>

record runtime =
  directory :: string
  isdir :: "string \<Rightarrow> bool"
  isfile :: "string \<Rightarrow> bool"
  islink :: "string \<Rightarrow> bool"
  open_rb :: "string \<Rightarrow> exc + file_obj"
  listdir :: "string \<Rightarrow> exc + string list"
  unquote_escapes :: "string \<Rightarrow> string"
  guess_type :: "string \<Rightarrow> string"
  version_string :: string
  date_time_now :: string
  date_time_string :: "real \<Rightarrow> exc + string"
  responses :: "nat \<Rightarrow> (string \<times> string) option"
  repr :: "string \<Rightarrow> string"
  error_page :: "nat \<Rightarrow> string \<Rightarrow> string \<Rightarrow> string"
  urlsplit_path :: "string \<Rightarrow> string"
  redirect_url :: "string \<Rightarrow> string"
  quote :: "string \<Rightarrow> string"
  filesystemencoding :: string
  encode :: "string \<Rightarrow> exc + string"
  not_modified_since :: "string \<Rightarrow> real \<Rightarrow> exc + bool"

subsection \<open>The handler object\<close>

text \<open>The attributes of a handler instance that the methods below read or write.
  \<open>headers_buffer\<close> is \<open>None\<close> while the attribute \<open>_headers_buffer\<close> does not exist;
  \<open>wfile\<close> is every byte written to the connection so far.\<close>

record handler =
  command :: "string option"
  path :: string
  request_version :: string
  requestline :: string
  headers :: "(string \<times> string) list"
  close_connection :: bool
  headers_buffer :: "string list option"
  wfile :: string

text \<open>What \<open>http.client.parse_headers\<close> returns or raises on the lines after the request
  line; the two exceptions carry their message.\<close>

datatype header_result =
  Headers "(string \<times> string) list" | LineTooLong string | TooManyHeaders string

record request =
  raw_requestline :: string
  header_lines :: header_result

text \<open>\<open>headers.get(name)\<close> and \<open>name in headers\<close>: header names match without regard to
  case, the first match wins.\<close>

definition header_get :: "(string \<times> string) list \<Rightarrow> string \<Rightarrow> string option" where
  "header_get hs name = map_of (map (\<lambda>(k, v). (lower k, v)) hs) (lower name)"

definition header_in :: "(string \<times> string) list \<Rightarrow> string \<Rightarrow> bool" where
  "header_in hs name = (header_get hs name \<noteq> None)"

definition protocol_version :: string where
  "protocol_version = ''HTTP/1.0''"

definition default_request_version :: string where
  "default_request_version = ''HTTP/0.9''"

definition error_content_type :: string where
  "error_content_type = ''text/html;charset=utf-8''"

subsection \<open>BaseHTTPRequestHandler: the response header buffer\<close>

text \<open>The two formats of a line in the buffer: \<open>"%s %d %s\r\n"\<close> for the status line and
  \<open>"%s: %s\r\n"\<close> for a header. \<open>buffered\<close> reads \<open>_headers_buffer\<close>, as the empty list
  when \<open>hasattr\<close> says the attribute is not there.\<close>

definition status_line :: "nat \<Rightarrow> string \<Rightarrow> string" where
  "status_line code message =
     protocol_version @ '' '' @ str_of_nat code @ '' '' @ message @ CRLF"

definition header_line :: "string \<Rightarrow> string \<Rightarrow> string" where
  "header_line keyword val = keyword @ '': '' @ val @ CRLF"

definition buffered :: "handler \<Rightarrow> string list" where
  "buffered s = (case headers_buffer s of None \<Rightarrow> [] | Some b \<Rightarrow> b)"

definition send_response_only :: "runtime \<Rightarrow> nat \<Rightarrow> string option \<Rightarrow> handler \<Rightarrow> handler" where
  "send_response_only E code message s =
     (if request_version s \<noteq> ''HTTP/0.9'' then
        let message = (case message of
                         None \<Rightarrow> (case responses E code of Some r \<Rightarrow> fst r | None \<Rightarrow> [])
                       | Some m \<Rightarrow> m)
        in s\<lparr>headers_buffer := Some (buffered s @ [status_line code message])\<rparr>
      else s)"

definition send_header :: "string \<Rightarrow> string \<Rightarrow> handler \<Rightarrow> handler" where
  "send_header keyword val s =
     (let s1 = (if request_version s \<noteq> ''HTTP/0.9''
                then s\<lparr>headers_buffer := Some (buffered s @ [header_line keyword val])\<rparr>
                else s)
      in if lower keyword = ''connection'' then
           (if lower val = ''close'' then s1\<lparr>close_connection := True\<rparr>
            else if lower val = ''keep-alive'' then s1\<lparr>close_connection := False\<rparr>
            else s1)
         else s1)"

definition flush_headers :: "handler \<Rightarrow> handler" where
  "flush_headers s =
     (case headers_buffer s of
        None \<Rightarrow> s
      | Some b \<Rightarrow> s\<lparr>wfile := wfile s @ concat b, headers_buffer := Some []\<rparr>)"

text \<open>The inherited \<open>end_headers\<close>, reached as \<open>super().end_headers()\<close>. Appending to a
  buffer that does not exist raises \<open>AttributeError\<close>.\<close>

definition super_end_headers :: "handler \<Rightarrow> exc option \<times> handler" where
  "super_end_headers s =
     (if request_version s \<noteq> ''HTTP/0.9'' then
        (case headers_buffer s of
           None \<Rightarrow> (Some AttributeError, s)
         | Some b \<Rightarrow> (None, flush_headers (s\<lparr>headers_buffer := Some (b @ [CRLF])\<rparr>)))
      else (None, s))"

subsection \<open>MyHTTPRequestHandler\<close>

text \<open>The one method the program defines: three calls of \<open>send_header\<close>, then the inherited
  \<open>end_headers\<close>. Every call of \<open>self.end_headers()\<close> in the base classes reaches it.\<close>

definition end_headers :: "handler \<Rightarrow> exc option \<times> handler" where
  "end_headers s =
     (let s1 = send_header ''Access-Control-Allow-Origin'' ''*'' s;
          s2 = send_header ''Access-Control-Allow-Methods'' ''GET, POST, OPTIONS'' s1;
          s3 = send_header ''Access-Control-Allow-Headers'' ''Content-Type'' s2
      in super_end_headers s3)"

subsection \<open>BaseHTTPRequestHandler: responses\<close>

definition send_response :: "runtime \<Rightarrow> nat \<Rightarrow> string option \<Rightarrow> handler \<Rightarrow> handler" where
  "send_response E code message s =
     (let s1 = send_response_only E code message s;
          s2 = send_header ''Server'' (version_string E) s1
      in send_header ''Date'' (date_time_now E) s2)"

definition send_error ::
  "runtime \<Rightarrow> nat \<Rightarrow> string option \<Rightarrow> string option \<Rightarrow> handler \<Rightarrow> exc option \<times> handler" where
  "send_error E code message explain s =
     (let (shortmsg, longmsg) =
            (case responses E code of Some r \<Rightarrow> r | None \<Rightarrow> (''???'', ''???''));
          message = (case message of None \<Rightarrow> shortmsg | Some m \<Rightarrow> m);
          explain = (case explain of None \<Rightarrow> longmsg | Some x \<Rightarrow> x);
          s1 = send_response E code (Some message) s;
          s2 = send_header ''Connection'' ''close'' s1;
          body = (if code \<ge> 200 \<and> code \<noteq> 204 \<and> code \<noteq> 205 \<and> code \<noteq> 304
                  then Some (error_page E code message explain) else None);
          s3 = (case body of
                  None \<Rightarrow> s2
                | Some b \<Rightarrow>
                    send_header ''Content-Length'' (str_of_nat (length b))
                      (send_header ''Content-Type'' error_content_type s2))
      in case end_headers s3 of
           (Some e, s4) \<Rightarrow> (Some e, s4)
         | (None, s4) \<Rightarrow>
             (None,
              case body of
                None \<Rightarrow> s4
              | Some b \<Rightarrow>
                  if command s4 \<noteq> Some ''HEAD'' \<and> b \<noteq> [] then s4\<lparr>wfile := wfile s4 @ b\<rparr>
                  else s4))"

subsection \<open>SimpleHTTPRequestHandler\<close>

definition unquote :: "runtime \<Rightarrow> string \<Rightarrow> string" where
  "unquote E s = (if CHR ''%'' \<notin> set s then s else unquote_escapes E s)"

text \<open>The loop of \<open>translate_path\<close>: a word that has a directory part, or is \<open>.\<close> or \<open>..\<close>,
  is skipped; every other word is joined to the path.\<close>

definition translate_step :: "string \<Rightarrow> string \<Rightarrow> string" where
  "translate_step p word =
     (if dirname word \<noteq> [] \<or> word = curdir \<or> word = pardir then p else posix_join p word)"

definition translate_path :: "runtime \<Rightarrow> string \<Rightarrow> string" where
  "translate_path E p =
     (let p1 = hd (split_once (CHR ''?'') p);
          p2 = hd (split_once (CHR ''#'') p1);
          trailing_slash = endswith (rstrip py_isspace p2) ''/'';
          p3 = normpath (unquote E p2);
          words = filter (\<lambda>w. w \<noteq> []) (split_on (CHR ''/'') p3);
          p4 = foldl translate_step (directory E) words
      in if trailing_slash then p4 @ ''/'' else p4)"

text \<open>\<open>list_directory\<close> and \<open>send_head\<close> return the file object the caller copies, or
  \<open>None\<close>; here, the bytes that object yields.

  The page of \<open>list_directory\<close>: \<open>list_entry\<close> is the body of its loop over the sorted
  names, with its two questions to the file system about each entry; \<open>listing_lines\<close> is
  the list \<open>r\<close> before it is joined.\<close>

definition dquote :: string where
  "dquote = [CHR 0x22]"

definition list_entry :: "runtime \<Rightarrow> string \<Rightarrow> string \<Rightarrow> string" where
  "list_entry E dir name =
     (let fullname = posix_join dir name;
          (displayname, linkname) =
            (if isdir E fullname then (name @ ''/'', name @ ''/'') else (name, name));
          displayname = (if islink E fullname then name @ ''@'' else displayname)
      in ''<li><a href='' @ dquote @ quote E linkname @ dquote @ ''>''
         @ html_escape displayname @ ''</a></li>'')"

definition listing_lines :: "runtime \<Rightarrow> string \<Rightarrow> string \<Rightarrow> string list \<Rightarrow> string list" where
  "listing_lines E self_path dir names =
     (let displaypath = html_escape (unquote E self_path);
          enc = filesystemencoding E;
          title = ''Directory listing for '' @ displaypath
      in [''<!DOCTYPE HTML>'',
          ''<html lang='' @ dquote @ ''en'' @ dquote @ ''>'',
          ''<head>'',
          ''<meta charset='' @ dquote @ enc @ dquote @ ''>'',
          ''<title>'' @ title @ ''</title>'' @ [LF] @ ''</head>'',
          ''<body>'' @ [LF] @ ''<h1>'' @ title @ ''</h1>'',
          ''<hr>'' @ [LF] @ ''<ul>'']
         @ map (list_entry E dir) (sort_lower names)
         @ [''</ul>'' @ [LF] @ ''<hr>'' @ [LF] @ ''</body>'' @ [LF] @ ''</html>'' @ [LF]])"

definition list_directory ::
  "runtime \<Rightarrow> string \<Rightarrow> handler \<Rightarrow> exc option \<times> string option \<times> handler" where
  "list_directory E dir s =
     (case listdir E dir of
        Inl e \<Rightarrow>
          (if e = OSError then
             (case send_error E 404 (Some ''No permission to list directory'') None s of
                (r, s') \<Rightarrow> (r, None, s'))
           else (Some e, None, s))
      | Inr names \<Rightarrow>
          (case encode E (join_sep LF (listing_lines E (path s) dir names)) of
             Inl e \<Rightarrow> (Some e, None, s)
           | Inr encoded \<Rightarrow>
               (let s1 = send_response E 200 None s;
                    s2 = send_header ''Content-type''
                           (''text/html; charset='' @ filesystemencoding E) s1;
                    s3 = send_header ''Content-Length'' (str_of_nat (length encoded)) s2
                in case end_headers s3 of (r, s4) \<Rightarrow> (r, Some encoded, s4))))"

text \<open>\<open>send_head\<close> in two parts: the choice of the path to serve, and, from the guess of
  the content type on, the answer for that path (\<open>send_head_file\<close>). Whatever is raised
  after the file was opened leaves \<open>send_head\<close> through its \<open>except: f.close(); raise\<close>;
  the lines buffered until then stay in the buffer.\<close>

definition send_head_file ::
  "runtime \<Rightarrow> string \<Rightarrow> handler \<Rightarrow> exc option \<times> string option \<times> handler" where
  "send_head_file E path1 s =
     (let ctype = guess_type E path1
      in if endswith path1 ''/'' then
           (case send_error E 404 (Some ''File not found'') None s of
              (r, s') \<Rightarrow> (r, None, s'))
         else
           (case open_rb E path1 of
              Inl e \<Rightarrow>
                (if e = OSError then
                   (case send_error E 404 (Some ''File not found'') None s of
                      (r, s') \<Rightarrow> (r, None, s'))
                 else (Some e, None, s))
            | Inr f \<Rightarrow>
                (case fstat f of
                   Inl e \<Rightarrow> (Some e, None, s)
                 | Inr fs \<Rightarrow>
                     (case (if header_in (headers s) ''If-Modified-Since''
                               \<and> \<not> header_in (headers s) ''If-None-Match''
                            then not_modified_since E
                                   (the (header_get (headers s) ''If-Modified-Since''))
                                   (st_mtime fs)
                            else Inr False) of
                        Inl e \<Rightarrow> (Some e, None, s)
                      | Inr True \<Rightarrow>
                          (case end_headers (send_response E 304 None s) of
                             (r, s') \<Rightarrow> (r, None, s'))
                      | Inr False \<Rightarrow>
                          (let s1 = send_response E 200 None s;
                               s2 = send_header ''Content-type'' ctype s1;
                               s3 = send_header ''Content-Length'' (str_of_nat (st_size fs)) s2
                           in case date_time_string E (st_mtime fs) of
                                Inl e \<Rightarrow> (Some e, None, s3)
                              | Inr last_modified \<Rightarrow>
                                  (case end_headers
                                          (send_header ''Last-Modified'' last_modified s3) of
                                     (r, s5) \<Rightarrow> (r, Some (contents f), s5)))))))"

definition send_head :: "runtime \<Rightarrow> handler \<Rightarrow> exc option \<times> string option \<times> handler" where
  "send_head E s =
     (let path0 = translate_path E (path s);
          index_html = posix_join path0 ''index.html'';
          index_htm = posix_join path0 ''index.htm''
      in if isdir E path0 \<and> \<not> endswith (urlsplit_path E (path s)) ''/'' then
           (let s1 = send_response E 301 None s;
                s2 = send_header ''Location'' (redirect_url E (path s)) s1;
                s3 = send_header ''Content-Length'' ''0'' s2
            in case end_headers s3 of (r, s4) \<Rightarrow> (r, None, s4))
         else if isdir E path0 \<and> \<not> isfile E index_html \<and> \<not> isfile E index_htm then
           list_directory E path0 s
         else
           send_head_file E
             (if \<not> isdir E path0 then path0
              else if isfile E index_html then index_html else index_htm) s)"

definition do_GET :: "runtime \<Rightarrow> handler \<Rightarrow> exc option \<times> handler" where
  "do_GET E s =
     (case send_head E s of
        (Some e, f, s') \<Rightarrow> (Some e, s')
      | (None, None, s') \<Rightarrow> (None, s')
      | (None, Some bytes, s') \<Rightarrow> (None, s'\<lparr>wfile := wfile s' @ bytes\<rparr>))"

definition do_HEAD :: "runtime \<Rightarrow> handler \<Rightarrow> exc option \<times> handler" where
  "do_HEAD E s = (case send_head E s of (r, f, s') \<Rightarrow> (r, s'))"

subsection \<open>BaseHTTPRequestHandler: reading a request\<close>

text \<open>The \<open>try\<close> block of \<open>parse_request\<close> that reads the protocol version: \<open>None\<close> where
  it raises \<open>ValueError\<close> or \<open>IndexError\<close>.\<close>

definition parse_version :: "string \<Rightarrow> (nat \<times> nat) option" where
  "parse_version version =
     (if \<not> startswith version ''HTTP/'' then None
      else
        let base_version_number = split_once (CHR ''/'') version ! 1;
            version_number = split_on (CHR ''.'') base_version_number
        in if length version_number \<noteq> 2 then None
           else if list_ex (\<lambda>component. \<not> (component \<noteq> [] \<and> list_all py_isdigit component))
                     version_number then None
           else if list_ex (\<lambda>component. length component > 10) version_number then None
           else (case (py_int (version_number ! 0), py_int (version_number ! 1)) of
                   (Some major, Some minor) \<Rightarrow> Some (major, minor)
                 | _ \<Rightarrow> None))"

definition handle_expect_100 :: "runtime \<Rightarrow> handler \<Rightarrow> exc option \<times> bool \<times> handler" where
  "handle_expect_100 E s =
     (case end_headers (send_response_only E 100 None s) of (r, s') \<Rightarrow> (r, True, s'))"

text \<open>\<open>parse_request\<close> in three parts: up to the assignment of \<open>request_version\<close>
  (\<open>parse_request\<close>), from the check of the number of words to the assignment of \<open>path\<close>
  (\<open>parse_request_tail\<close>), and from the reading of the headers on
  (\<open>parse_request_headers\<close>). Each returns the exception raised, if any, the Boolean
  result and the handler.\<close>

definition parse_request_headers ::
  "runtime \<Rightarrow> request \<Rightarrow> handler \<Rightarrow> exc option \<times> bool \<times> handler" where
  "parse_request_headers E rq s3 =
     (case header_lines rq of
        LineTooLong err \<Rightarrow>
          (case send_error E 431 (Some ''Line too long'') (Some err) s3 of
             (r, s') \<Rightarrow> (r, False, s'))
      | TooManyHeaders err \<Rightarrow>
          (case send_error E 431 (Some ''Too many headers'') (Some err) s3 of
             (r, s') \<Rightarrow> (r, False, s'))
      | Headers hs \<Rightarrow>
          let s4 = s3\<lparr>headers := hs\<rparr>;
              conntype = (case header_get hs ''Connection'' of None \<Rightarrow> [] | Some v \<Rightarrow> v);
              s5 = (if lower conntype = ''close'' then s4\<lparr>close_connection := True\<rparr>
                    else if lower conntype = ''keep-alive''
                            \<and> str_ge protocol_version ''HTTP/1.1''
                    then s4\<lparr>close_connection := False\<rparr> else s4);
              expect = (case header_get hs ''Expect'' of None \<Rightarrow> [] | Some v \<Rightarrow> v)
          in if lower expect = ''100-continue''
                \<and> str_ge protocol_version ''HTTP/1.1''
                \<and> str_ge (request_version s5) ''HTTP/1.1''
             then (case handle_expect_100 E s5 of
                     (Some e, b, s') \<Rightarrow> (Some e, False, s')
                   | (None, b, s') \<Rightarrow> (None, b, s'))
             else (None, True, s5))"

definition parse_request_tail ::
  "runtime \<Rightarrow> request \<Rightarrow> string list \<Rightarrow> handler \<Rightarrow> exc option \<times> bool \<times> handler" where
  "parse_request_tail E rq words s =
     (if \<not> (2 \<le> length words \<and> length words \<le> 3) then
        (case send_error E 400
                (Some (''Bad request syntax ('' @ repr E (requestline s) @ '')'')) None s of
           (r, s') \<Rightarrow> (r, False, s'))
      else
        let cmd = words ! 0;
            pth = words ! 1;
            s1 = (if length words = 2 then s\<lparr>close_connection := True\<rparr> else s)
        in if length words = 2 \<and> cmd \<noteq> ''GET'' then
             (case send_error E 400
                     (Some (''Bad HTTP/0.9 request type ('' @ repr E cmd @ '')'')) None s1 of
                (r, s') \<Rightarrow> (r, False, s'))
           else
             let s2 = s1\<lparr>command := Some cmd, path := pth\<rparr>;
                 s3 = (if startswith (path s2) ''//''
                       then s2\<lparr>path := ''/'' @ lstrip (\<lambda>c. c = CHR ''/'') (path s2)\<rparr> else s2)
             in parse_request_headers E rq s3)"

definition parse_request ::
  "runtime \<Rightarrow> request \<Rightarrow> handler \<Rightarrow> exc option \<times> bool \<times> handler" where
  "parse_request E rq s0 =
     (let s = s0\<lparr>command := None, request_version := default_request_version,
                 close_connection := True,
                 requestline := rstrip (\<lambda>c. c = CR \<or> c = LF) (raw_requestline rq)\<rparr>;
          words = py_split (requestline s)
      in if length words = 0 then (None, False, s)
         else if length words \<ge> 3 then
           (let version = last words
            in case parse_version version of
                 None \<Rightarrow>
                   (case send_error E 400
                           (Some (''Bad request version ('' @ repr E version @ '')'')) None s of
                      (r, s') \<Rightarrow> (r, False, s'))
               | Some (major, minor) \<Rightarrow>
                   let s1 = (if (major > 1 \<or> (major = 1 \<and> minor \<ge> 1))
                                \<and> str_ge protocol_version ''HTTP/1.1''
                             then s\<lparr>close_connection := False\<rparr> else s)
                   in if major \<ge> 2 then
                        (case send_error E 505
                                (Some (''Invalid HTTP version (''
                                       @ split_once (CHR ''/'') version ! 1 @ '')'')) None s1 of
                           (r, s') \<Rightarrow> (r, False, s'))
                      else parse_request_tail E rq words (s1\<lparr>request_version := version\<rparr>))
         else parse_request_tail E rq words s)"

text \<open>\<open>handle_one_request\<close>. The request line was read with \<open>readline(65537)\<close>. The class
  has the methods \<open>do_GET\<close> and \<open>do_HEAD\<close> and no other whose name starts with \<open>do_\<close>.\<close>

definition handle_one_request :: "runtime \<Rightarrow> request \<Rightarrow> handler \<Rightarrow> exc option \<times> handler" where
  "handle_one_request E rq s =
     (if length (raw_requestline rq) > 65536 then
        send_error E 414 None None
          (s\<lparr>requestline := [], request_version := [], command := Some []\<rparr>)
      else if raw_requestline rq = [] then (None, s\<lparr>close_connection := True\<rparr>)
      else
        (case parse_request E rq s of
           (Some e, ok, s1) \<Rightarrow> (Some e, s1)
         | (None, False, s1) \<Rightarrow> (None, s1)
         | (None, True, s1) \<Rightarrow>
             (let cmd = (case command s1 of None \<Rightarrow> [] | Some c \<Rightarrow> c)
              in if cmd = ''GET'' then do_GET E s1
                 else if cmd = ''HEAD'' then do_HEAD E s1
                 else send_error E 501
                        (Some (''Unsupported method ('' @ repr E cmd @ '')'')) None s1)))"

text \<open>A handler as \<open>handle\<close> finds it: no attribute set yet, nothing written.\<close>

definition new_handler :: handler where
  "new_handler =
     \<lparr>command = None, path = [], request_version = [], requestline = [], headers = [],
      close_connection = True, headers_buffer = None, wfile = []\<rparr>"

text \<open>\<open>handle\<close>: requests are read from the connection until \<open>close_connection\<close> is set. The
  list holds the requests the client sends; at its end \<open>readline\<close> returns no byte.\<close>

fun handle_loop :: "runtime \<Rightarrow> request list \<Rightarrow> handler \<Rightarrow> exc option \<times> handler" where
  "handle_loop E [] s = (None, s\<lparr>close_connection := True\<rparr>)"
| "handle_loop E (rq # rqs) s =
     (case handle_one_request E rq s of
        (Some e, s') \<Rightarrow> (Some e, s')
      | (None, s') \<Rightarrow> if close_connection s' then (None, s') else handle_loop E rqs s')"

definition handle :: "runtime \<Rightarrow> request list \<Rightarrow> exc option \<times> handler" where
  "handle E rqs = handle_loop E rqs (new_handler\<lparr>close_connection := True\<rparr>)"

subsection \<open>The process: run_server\<close>

definition PORT :: nat where
  "PORT = 8443"

definition CERT_FILE :: string where
  "CERT_FILE = ''certs/server.crt''"

definition KEY_FILE :: string where
  "KEY_FILE = ''certs/server.key''"

text \<open>What the process can observe of its machine, and what happens to the server while
  it runs.
  \<^item> \<open>path_exists\<close> is \<open>os.path.exists\<close>, \<open>getcwd\<close> is \<open>os.getcwd()\<close>.
  \<^item> \<open>stdout_encodes t\<close>: the encoding of \<open>sys.stdout\<close>, with its error handler, can
    encode the text \<open>t\<close>. (It is asked about texts with a character that is not ASCII
    only.)
  \<^item> \<open>server_bind\<close> is the exception the constructor \<open>HTTPServer(server_address, ...)\<close>
    raises when it cannot bind and listen; \<open>load_cert_chain\<close> the exception
    \<open>context.load_cert_chain\<close> raises on unusable key material.
  \<^item> \<open>events\<close> is what reaches the accept loop, in order: a connection with the requests
    the client sends on it, a connection whose TLS handshake fails, or the interrupt signal.
    After the last event nothing reaches the loop any more.
  \<^item> \<open>library\<close> holds the answers the request handler gets.\<close>

datatype event = Connection "request list" | HandshakeFailure | Interrupt

record system =
  path_exists :: "string \<Rightarrow> bool"
  getcwd :: string
  stdout_encodes :: "string \<Rightarrow> bool"
  server_bind :: "exc option"
  load_cert_chain :: "string \<Rightarrow> string \<Rightarrow> exc option"
  events :: "event list"
  library :: runtime

text \<open>What the process has done: the arguments of its \<open>print\<close> calls, the ports it listens
  on, the TLS contexts it has constructed, whether the listening socket is wrapped, and the
  bytes sent on each accepted connection.\<close>

record world =
  stdout :: "string list"
  listening :: "nat list"
  ssl_contexts :: nat
  tls_wrapped :: bool
  replies :: "string list"

datatype outcome = Returned | Raised exc | Blocked

text \<open>\<open>print(line)\<close>: the text is encoded for standard output when it is written, before
  anything of it appears; where that fails, \<open>print\<close> raises \<open>UnicodeEncodeError\<close> and
  nothing is printed. \<open>print_all\<close> is a sequence of \<open>print\<close> statements: the first that
  raises ends it.\<close>

definition print :: "system \<Rightarrow> string \<Rightarrow> world \<Rightarrow> exc option \<times> world" where
  "print S line w =
     (if list_all ascii line \<or> stdout_encodes S line
      then (None, w\<lparr>stdout := stdout w @ [line]\<rparr>)
      else (Some UnicodeEncodeError, w))"

fun print_all :: "system \<Rightarrow> string list \<Rightarrow> world \<Rightarrow> exc option \<times> world" where
  "print_all S [] w = (None, w)"
| "print_all S (line # rest) w =
     (case print S line w of
        (Some e, w') \<Rightarrow> (Some e, w')
      | (None, w') \<Rightarrow> print_all S rest w')"

text \<open>\<open>httpd.serve_forever()\<close>. A failed handshake is an \<open>OSError\<close> of \<open>get_request\<close>,
  which the loop drops. An exception of the handler is caught and logged by
  \<open>process_request\<close>; what the handler wrote before it has been sent. The interrupt raises
  \<open>KeyboardInterrupt\<close> out of the loop. With no event left the loop waits for ever.\<close>

fun serve_forever :: "system \<Rightarrow> event list \<Rightarrow> world \<Rightarrow> outcome \<times> world" where
  "serve_forever S [] w = (Blocked, w)"
| "serve_forever S (Interrupt # es) w = (Raised KeyboardInterrupt, w)"
| "serve_forever S (HandshakeFailure # es) w = serve_forever S es w"
| "serve_forever S (Connection rqs # es) w =
     serve_forever S es
       (w\<lparr>replies := replies w
            @ [wfile (snd (handle ((library S)\<lparr>directory := getcwd S\<rparr>) rqs))]\<rparr>)"

definition cross_mark :: string where
  "cross_mark = [CHR 0xE2, CHR 0x9D, CHR 0x8C]"

definition banner :: "system \<Rightarrow> string list" where
  "banner S =
     [''HTTPS Server running on https://localhost:'' @ str_of_nat PORT,
      ''Serving files from: '' @ getcwd S,
      ''Using SSL certificates:'',
      ''   - Certificate: '' @ CERT_FILE,
      ''   - Private Key: '' @ KEY_FILE,
      [LF] @ ''Your browser will show a security warning because this is a self-signed certificate.'',
      ''   Click '' @ [CHR 0x27] @ ''Advanced'' @ [CHR 0x27] @ '' and '' @ [CHR 0x27]
        @ ''Proceed to localhost'' @ [CHR 0x27] @ '' to continue.'' @ [LF],
      ''Press Ctrl+C to stop the server'' @ [LF]]"

definition run_server :: "system \<Rightarrow> world \<Rightarrow> outcome \<times> world" where
  "run_server S w =
     (if \<not> path_exists S CERT_FILE \<or> \<not> path_exists S KEY_FILE then
        (case print_all S
                [cross_mark @ '' Error: SSL certificates not found!'',
                 ''   Looking for: '' @ CERT_FILE @ '' and '' @ KEY_FILE] w of
           (Some e, w') \<Rightarrow> (Raised e, w')
         | (None, w') \<Rightarrow> (Returned, w'))
      else
        (case server_bind S of
           Some e \<Rightarrow> (Raised e, w)
         | None \<Rightarrow>
             (let w1 = w\<lparr>listening := listening w @ [PORT]\<rparr>;
                  w2 = w1\<lparr>ssl_contexts := ssl_contexts w1 + 1\<rparr>
              in case load_cert_chain S CERT_FILE KEY_FILE of
                   Some e \<Rightarrow> (Raised e, w2)
                 | None \<Rightarrow>
                     (let w3 = w2\<lparr>tls_wrapped := True\<rparr>
                      in case print_all S (banner S) w3 of
                           (Some e, w4) \<Rightarrow> (Raised e, w4)
                         | (None, w4) \<Rightarrow>
                             (case serve_forever S (events S) w4 of
                                (Raised KeyboardInterrupt, w5) \<Rightarrow>
                                  (case print S ([LF, LF] @ ''Server stopped'') w5 of
                                     (Some e, w6) \<Rightarrow> (Raised e, w6)
                                   | (None, w6) \<Rightarrow> (Returned, w6))
                              | (r, w5) \<Rightarrow> (r, w5))))))"

text \<open>The script: \<open>run_server()\<close> is its last statement. The interpreter exits with
  status 0 when it returns and with status 1 on an exception nobody caught; a call that
  never returns gives no status.\<close>

definition exit_status :: "outcome \<Rightarrow> nat option" where
  "exit_status r = (case r of Returned \<Rightarrow> Some 0 | Raised e \<Rightarrow> Some 1 | Blocked \<Rightarrow> None)"

definition main :: "system \<Rightarrow> world \<Rightarrow> nat option \<times> world" where
  "main S w = (case run_server S w of (r, w') \<Rightarrow> (exit_status r, w'))"

definition new_world :: world where
  "new_world = \<lparr>stdout = [], listening = [], ssl_contexts = 0, tls_wrapped = False, replies = []\<rparr>"

subsection \<open>Notions the statements use\<close>

text \<open>The three header lines of the program, as they stand in a header block, and the test
  whether a text occurs in another.\<close>

definition cors_block :: string where
  "cors_block =
     header_line ''Access-Control-Allow-Origin'' ''*''
     @ header_line ''Access-Control-Allow-Methods'' ''GET, POST, OPTIONS''
     @ header_line ''Access-Control-Allow-Headers'' ''Content-Type''"

fun contains :: "string \<Rightarrow> string \<Rightarrow> bool" where
  "contains [] sub = (sub = [])"
| "contains (c # cs) sub = (startswith (c # cs) sub \<or> contains cs sub)"

text \<open>The pieces of a response: the reason phrase \<open>send_response_only\<close> writes, the lines
  \<open>send_response\<close> buffers, the page and the header lines of \<open>send_error\<close>.\<close>

definition phrase :: "runtime \<Rightarrow> nat \<Rightarrow> string option \<Rightarrow> string" where
  "phrase E code message =
     (case message of None \<Rightarrow> (case responses E code of Some r \<Rightarrow> fst r | None \<Rightarrow> [])
      | Some m \<Rightarrow> m)"

definition response_head :: "runtime \<Rightarrow> nat \<Rightarrow> string option \<Rightarrow> string" where
  "response_head E code message =
     status_line code (phrase E code message)
     @ header_line ''Server'' (version_string E)
     @ header_line ''Date'' (date_time_now E)"

definition error_body :: "runtime \<Rightarrow> nat \<Rightarrow> string option \<Rightarrow> string option \<Rightarrow> string option" where
  "error_body E code message explain =
     (if code \<ge> 200 \<and> code \<noteq> 204 \<and> code \<noteq> 205 \<and> code \<noteq> 304
      then Some (error_page E code
                   (case message of
                      None \<Rightarrow> (case responses E code of Some r \<Rightarrow> fst r | None \<Rightarrow> ''???'')
                    | Some m \<Rightarrow> m)
                   (case explain of
                      None \<Rightarrow> (case responses E code of Some r \<Rightarrow> snd r | None \<Rightarrow> ''???'')
                    | Some x \<Rightarrow> x))
      else None)"

definition error_head :: "runtime \<Rightarrow> nat \<Rightarrow> string option \<Rightarrow> string option \<Rightarrow> string" where
  "error_head E code message explain =
     response_head E code
       (Some (case message of
                None \<Rightarrow> (case responses E code of Some r \<Rightarrow> fst r | None \<Rightarrow> ''???'')
              | Some m \<Rightarrow> m))
     @ header_line ''Connection'' ''close''
     @ (case error_body E code message explain of
          None \<Rightarrow> []
        | Some b \<Rightarrow> header_line ''Content-Type'' error_content_type
                    @ header_line ''Content-Length'' (str_of_nat (length b)))"

text \<open>The keywords of the headers the base classes send, and a header as a pair of its
  keyword and its value. A text is a single line when it holds no line feed. The library
  answers in single lines when every text it supplies for a status line or for the value
  of a header is one: those of the real library are.\<close>

definition base_keywords :: "string list" where
  "base_keywords =
     [''Server'', ''Date'', ''Connection'', ''Content-Type'', ''Content-type'',
      ''Content-Length'', ''Location'', ''Last-Modified'']"

definition header_block :: "(string \<times> string) list \<Rightarrow> string" where
  "header_block hs = concat (map (\<lambda>(k, v). header_line k v) hs)"

definition single_line :: "string \<Rightarrow> bool" where
  "single_line t \<longleftrightarrow> LF \<notin> set t"

definition library_lines :: "runtime \<Rightarrow> bool" where
  "library_lines E \<longleftrightarrow>
     single_line (version_string E) \<and> single_line (date_time_now E)
     \<and> single_line (filesystemencoding E)
     \<and> (\<forall>c. single_line (case responses E c of Some r \<Rightarrow> fst r | None \<Rightarrow> []))
     \<and> (\<forall>x. single_line (repr E x))
     \<and> (\<forall>p. single_line (guess_type E p))
     \<and> (\<forall>p. single_line (redirect_url E p))
     \<and> (\<forall>t. single_line (case date_time_string E t of Inr d \<Rightarrow> d | Inl e \<Rightarrow> []))"

text \<open>\<open>responds E s s'\<close>: from \<open>s\<close> to \<open>s'\<close>, the handler has written what it had buffered
  and then one full response: a status line, headers of the base classes, the three CORS
  header lines, the blank line, and a body. Where the library answers in single lines, the
  status line and every header before the CORS lines is a single line, so the blank line
  after the CORS lines is the first one of the response.
  \<open>pending E s t\<close>: from \<open>s\<close> to \<open>t\<close>, the handler has written nothing and has buffered
  such a status line and such headers.\<close>

definition responds :: "runtime \<Rightarrow> handler \<Rightarrow> handler \<Rightarrow> bool" where
  "responds E s s' \<longleftrightarrow>
     (\<exists>code message hs body.
        wfile s' = wfile s @ concat (buffered s) @ status_line code message
                   @ header_block hs @ cors_block @ CRLF @ body
        \<and> list_all (\<lambda>(k, v). k \<in> set base_keywords) hs
        \<and> (library_lines E \<longrightarrow>
             single_line message \<and> list_all (\<lambda>(k, v). single_line v) hs))"

definition pending :: "runtime \<Rightarrow> handler \<Rightarrow> handler \<Rightarrow> bool" where
  "pending E s t \<longleftrightarrow>
     wfile t = wfile s \<and> request_version t = request_version s \<and> command t = command s
     \<and> (\<exists>code message hs.
          buffered t = buffered s @ status_line code message # map (\<lambda>(k, v). header_line k v) hs
          \<and> list_all (\<lambda>(k, v). k \<in> set base_keywords) hs
          \<and> (library_lines E \<longrightarrow>
               single_line message \<and> list_all (\<lambda>(k, v). single_line v) hs))"



subsection \<open>Concrete inputs\<close>

text \<open>A machine to run the program on. The serving root \<open>/srv/www\<close> holds \<open>index.html\<close>
  with the five bytes \<open>hello\<close>, \<open>etc/passwd\<close> with the six bytes \<open>inside\<close>, \<open>late.txt\<close>
  whose time of modification is in the year 10680, and the directory \<open>pub\<close> with two
  files; \<open>/etc/passwd\<close>, outside the root, does not exist. A path with a null character
  cannot be opened. A time stamp from the year 10000 on cannot be formatted. The one
  date an \<open>If-Modified-Since\<close> header can name is later than every file. The certificate
  and the key are there or not, as the two flags say; standard output encodes every
  text.\<close>

definition demo_runtime :: runtime where
  "demo_runtime =
     \<lparr>directory = ''/srv/www'',
      isdir = (\<lambda>p. p = ''/srv/www'' \<or> p = ''/srv/www/''
                   \<or> p = ''/srv/www/pub'' \<or> p = ''/srv/www/pub/''),
      isfile = (\<lambda>p. p = ''/srv/www/index.html''),
      islink = (\<lambda>p. False),
      open_rb = (\<lambda>p. if CHR 0x00 \<in> set p then Inl ValueError
                      else if p = ''/srv/www/index.html''
                      then Inr \<lparr>contents = ''hello'',
                                fstat = Inr \<lparr>st_size = 5, st_mtime = 0\<rparr>\<rparr>
                      else if p = ''/srv/www/etc/passwd''
                      then Inr \<lparr>contents = ''inside'',
                                fstat = Inr \<lparr>st_size = 6, st_mtime = 0\<rparr>\<rparr>
                      else if p = ''/srv/www/late.txt''
                      then Inr \<lparr>contents = ''late'',
                                fstat = Inr \<lparr>st_size = 4, st_mtime = 274877906944\<rparr>\<rparr>
                      else Inl OSError),
      listdir = (\<lambda>p. if p = ''/srv/www/pub/'' then Inr [''b.txt'', ''A.txt'']
                      else Inl OSError),
      unquote_escapes = (\<lambda>s. s),
      guess_type = (\<lambda>p. ''text/html''),
      version_string = ''SimpleHTTP/0.6'',
      date_time_now = ''now'',
      date_time_string = (\<lambda>t. if t < 253402300800 then Inr ''then'' else Inl ValueError),
      responses = (\<lambda>c. if c = 200 then Some (''OK'', ''Request fulfilled'') else None),
      repr = (\<lambda>s. [CHR 0x27] @ replace_char LF [CHR 0x5C, CHR ''n''] s @ [CHR 0x27]),
      error_page = (\<lambda>c m e. ''Error '' @ str_of_nat c),
      urlsplit_path = (\<lambda>p. p),
      redirect_url = (\<lambda>p. replace_char LF [] p @ ''/''),
      quote = (\<lambda>s. s),
      filesystemencoding = ''utf-8'',
      encode = (\<lambda>s. Inr s),
      not_modified_since = (\<lambda>v t. Inr (v = ''Fri, 01 Jan 2100 00:00:00 GMT''))\<rparr>"

definition demo_system :: "bool \<Rightarrow> bool \<Rightarrow> event list \<Rightarrow> system" where
  "demo_system has_cert has_key es =
     \<lparr>path_exists = (\<lambda>p. (p = CERT_FILE \<and> has_cert) \<or> (p = KEY_FILE \<and> has_key)),
      getcwd = ''/srv/www'', stdout_encodes = (\<lambda>t. True), server_bind = None,
      load_cert_chain = (\<lambda>c k. None), events = es, library = demo_runtime\<rparr>"

text \<open>A request line with no header line after it, and one with header lines.\<close>

definition request_of :: "string \<Rightarrow> request" where
  "request_of line = \<lparr>raw_requestline = line @ CRLF, header_lines = Headers []\<rparr>"

definition request_with :: "string \<Rightarrow> (string \<times> string) list \<Rightarrow> request" where
  "request_with line hs = \<lparr>raw_requestline = line @ CRLF, header_lines = Headers hs\<rparr>"

text \<open>The handler after \<open>parse_request\<close> has accepted the request line
  \<open>cmd target version\<close> with no header line, on a new connection.\<close>

definition parsed :: "string \<Rightarrow> string \<Rightarrow> string \<Rightarrow> handler" where
  "parsed cmd target version =
     \<lparr>command = Some cmd, path = target, request_version = version,
      requestline = cmd @ '' '' @ target @ '' '' @ version, headers = [],
      close_connection = True, headers_buffer = None, wfile = []\<rparr>"

section \<open>Starting and stopping the server\<close>

subsection \<open>Auxiliary facts about printing and the accept loop\<close>

lemma serve_forever_Interrupt:
  "Interrupt \<in> set es \<Longrightarrow> fst (serve_forever S es w) = Raised KeyboardInterrupt"
  by (induction S es w rule: serve_forever.induct) auto

lemma serve_forever_stops:
  "serve_forever S (es @ Interrupt # es') w = serve_forever S (es @ [Interrupt]) w"
  by (induction S es w rule: serve_forever.induct) auto

lemma print_ok:
  "list_all ascii line \<or> stdout_encodes S line \<Longrightarrow>
   print S line w = (None, w\<lparr>stdout := stdout w @ [line]\<rparr>)"
  by (simp add: print_def)

lemma print_not_ascii:
  "\<not> list_all ascii line \<Longrightarrow>
   print S line w =
     (if stdout_encodes S line then (None, w\<lparr>stdout := stdout w @ [line]\<rparr>)
      else (Some UnicodeEncodeError, w))"
  by (simp add: print_def)

lemma print_all_ok:
  "list_all (\<lambda>line. list_all ascii line \<or> stdout_encodes S line) ls \<Longrightarrow>
   print_all S ls w = (None, w\<lparr>stdout := stdout w @ ls\<rparr>)"
  by (induction ls arbitrary: w) (simp_all add: print_ok)

lemma ascii_error_lines:
  "list_all ascii (''   Looking for: '' @ CERT_FILE @ '' and '' @ KEY_FILE)"
  "list_all ascii ([LF, LF] @ ''Server stopped'')"
  by (simp_all add: ascii_def CERT_FILE_def KEY_FILE_def LF_def)

lemma str_of_nat_PORT: "str_of_nat PORT = ''8443''"
  by (simp add: PORT_def str_of_nat.simps char_of_eq_iff)

lemma banner_printable:
  assumes "list_all ascii (getcwd S) \<or> stdout_encodes S (''Serving files from: '' @ getcwd S)"
  shows "list_all (\<lambda>line. list_all ascii line \<or> stdout_encodes S line) (banner S)"
proof -
  have "list_all ascii (''Serving files from: '' @ getcwd S)
        \<or> stdout_encodes S (''Serving files from: '' @ getcwd S)"
    using assms by (auto simp: ascii_def)
  then show ?thesis
    by (simp add: banner_def str_of_nat_PORT ascii_def CERT_FILE_def KEY_FILE_def LF_def)
qed

lemma fst_main:
  "fst (main S w) = exit_status (fst (run_server S w))"
  by (simp add: main_def split: prod.splits)

lemma serve_forever_frame:
  "stdout (snd (serve_forever S es w)) = stdout w
   \<and> listening (snd (serve_forever S es w)) = listening w
   \<and> ssl_contexts (snd (serve_forever S es w)) = ssl_contexts w
   \<and> tls_wrapped (snd (serve_forever S es w)) = tls_wrapped w"
  by (induction S es w rule: serve_forever.induct) auto

lemma run_server_missing:
  assumes "\<not> path_exists S CERT_FILE \<or> \<not> path_exists S KEY_FILE"
  shows "run_server S w =
           (if stdout_encodes S (cross_mark @ '' Error: SSL certificates not found!'')
            then (Returned,
                  w\<lparr>stdout := stdout w @
                       [cross_mark @ '' Error: SSL certificates not found!'',
                        ''   Looking for: certs/server.crt and certs/server.key'']\<rparr>)
            else (Raised UnicodeEncodeError, w))"
proof -
  have n: "\<not> list_all ascii (cross_mark @ '' Error: SSL certificates not found!'')"
    by (simp add: cross_mark_def ascii_def)
  have e: "print S (cross_mark @ '' Error: SSL certificates not found!'') w =
             (if stdout_encodes S (cross_mark @ '' Error: SSL certificates not found!'')
              then (None, w\<lparr>stdout := stdout w @
                      [cross_mark @ '' Error: SSL certificates not found!'']\<rparr>)
              else (Some UnicodeEncodeError, w))"
    using print_not_ascii [OF n] .
  have l: "print S (''   Looking for: '' @ CERT_FILE @ '' and '' @ KEY_FILE) v =
             (None, v\<lparr>stdout := stdout v @
                [''   Looking for: '' @ CERT_FILE @ '' and '' @ KEY_FILE]\<rparr>)" for v
    using print_ok [OF disjI1 [OF ascii_error_lines(1)]] .
  have t: "''   Looking for: '' @ CERT_FILE @ '' and '' @ KEY_FILE =
             ''   Looking for: certs/server.crt and certs/server.key''"
    by (simp add: CERT_FILE_def KEY_FILE_def)
  have "run_server S w =
          (case print_all S
                  [cross_mark @ '' Error: SSL certificates not found!'',
                   ''   Looking for: '' @ CERT_FILE @ '' and '' @ KEY_FILE] w of
             (Some e, w') \<Rightarrow> (Raised e, w')
           | (None, w') \<Rightarrow> (Returned, w'))"
    unfolding run_server_def using assms by auto
  also have "\<dots> =
          (if stdout_encodes S (cross_mark @ '' Error: SSL certificates not found!'')
           then (Returned,
                 w\<lparr>stdout := stdout w @
                      [cross_mark @ '' Error: SSL certificates not found!'',
                       ''   Looking for: '' @ CERT_FILE @ '' and '' @ KEY_FILE]\<rparr>)
           else (Raised UnicodeEncodeError, w))"
    unfolding print_all.simps e l by simp
  finally show ?thesis
    unfolding t .
qed

lemma run_server_interrupted:
  assumes "path_exists S CERT_FILE" and "path_exists S KEY_FILE"
      and "server_bind S = None" and "load_cert_chain S CERT_FILE KEY_FILE = None"
      and "list_all ascii (getcwd S) \<or> stdout_encodes S (''Serving files from: '' @ getcwd S)"
      and "Interrupt \<in> set (events S)"
  shows "fst (run_server S w) = Returned
         \<and> stdout (snd (run_server S w)) = stdout w @ banner S @ [[LF, LF] @ ''Server stopped'']"
proof -
  define w3 where "w3 = w\<lparr>listening := listening w @ [PORT], ssl_contexts := ssl_contexts w + 1,
         tls_wrapped := True\<rparr>"
  define w4 where "w4 = w3\<lparr>stdout := stdout w3 @ banner S\<rparr>"
  have b: "print_all S (banner S) w3 = (None, w4)"
    using print_all_ok [OF banner_printable [OF assms(5)]] by (simp add: w4_def)
  obtain w5 where w5: "serve_forever S (events S) w4 = (Raised KeyboardInterrupt, w5)"
    using serve_forever_Interrupt [OF assms(6), of S w4]
    by (cases "serve_forever S (events S) w4") auto
  have "stdout w5 = stdout w4"
    using serve_forever_frame [of S "events S" w4] w5 by simp
  then have out: "stdout w5 = stdout w @ banner S"
    by (simp add: w4_def w3_def)
  have "run_server S w =
          (Returned, w5\<lparr>stdout := stdout w5 @ [[LF, LF] @ ''Server stopped'']\<rparr>)"
    using assms(1-4) b w5 print_ok [OF disjI1 [OF ascii_error_lines(2)], of S w5]
    by (simp add: run_server_def w3_def Let_def)
  then show ?thesis
    using out by simp
qed

subsection \<open>Missing certificate files\<close>

text \<open>
  \<^bold>\<open>Claim C3\<close>, as amended. If the certificate file or the key file does not exist when
  \<open>run_server\<close> is called, then no port is listened on, no TLS context is constructed, no
  socket is wrapped and no connection is served. Where standard output can encode the
  error line, which starts with U+274C, \<open>run_server\<close> returns at once, and all it has
  done is to print two lines: the error line, and one fixed line that names both
  configured paths. The two lines do not depend on which file is missing (see the
  counterexample below), so they do not report \<^emph>\<open>which\<close> path is missing.
\<close>

theorem missing_certificate_fails_fast:
  assumes "\<not> path_exists S CERT_FILE \<or> \<not> path_exists S KEY_FILE"
  shows "listening (snd (run_server S w)) = listening w
         \<and> ssl_contexts (snd (run_server S w)) = ssl_contexts w
         \<and> tls_wrapped (snd (run_server S w)) = tls_wrapped w
         \<and> replies (snd (run_server S w)) = replies w
         \<and> (stdout_encodes S (cross_mark @ '' Error: SSL certificates not found!'') \<longrightarrow>
              run_server S w =
                (Returned,
                 w\<lparr>stdout := stdout w @
                      [cross_mark @ '' Error: SSL certificates not found!'',
                       ''   Looking for: certs/server.crt and certs/server.key'']\<rparr>))"
  by (simp add: run_server_missing [OF assms])

text \<open>Witness for C3: the key is missing, the certificate is there.\<close>

theorem missing_certificate_fails_fast_witness:
  "path_exists (demo_system True False []) CERT_FILE
   \<and> \<not> path_exists (demo_system True False []) KEY_FILE
   \<and> stdout_encodes (demo_system True False [])
        (cross_mark @ '' Error: SSL certificates not found!'')
   \<and> run_server (demo_system True False []) new_world =
       (Returned,
        new_world\<lparr>stdout :=
          [cross_mark @ '' Error: SSL certificates not found!'',
           ''   Looking for: certs/server.crt and certs/server.key'']\<rparr>)
   \<and> listening (snd (run_server (demo_system True False []) new_world)) = []
   \<and> ssl_contexts (snd (run_server (demo_system True False []) new_world)) = 0
   \<and> tls_wrapped (snd (run_server (demo_system True False []) new_world)) = False"
proof -
  have h: "\<not> path_exists (demo_system True False []) CERT_FILE
           \<or> \<not> path_exists (demo_system True False []) KEY_FILE"
    by (simp add: demo_system_def CERT_FILE_def KEY_FILE_def)
  show ?thesis
    using missing_certificate_fails_fast [OF h, of new_world]
    by (simp add: new_world_def demo_system_def CERT_FILE_def KEY_FILE_def)
qed

text \<open>Counterexample to C3 as stated ("reports which specific path(s) are missing"): on a
  machine where only the key is missing and on one where only the certificate is missing,
  the program prints the same text.\<close>

theorem diagnostic_does_not_tell_which_counterexample:
  "path_exists (demo_system True False []) CERT_FILE \<and>
   \<not> path_exists (demo_system True False []) KEY_FILE \<and>
   \<not> path_exists (demo_system False True []) CERT_FILE \<and>
   path_exists (demo_system False True []) KEY_FILE \<and>
   stdout (snd (run_server (demo_system True False []) new_world)) =
     [cross_mark @ '' Error: SSL certificates not found!'',
      ''   Looking for: certs/server.crt and certs/server.key''] \<and>
   stdout (snd (run_server (demo_system False True []) new_world)) =
     stdout (snd (run_server (demo_system True False []) new_world))"
proof -
  have a: "\<not> path_exists (demo_system True False []) CERT_FILE
           \<or> \<not> path_exists (demo_system True False []) KEY_FILE"
    and b: "\<not> path_exists (demo_system False True []) CERT_FILE
           \<or> \<not> path_exists (demo_system False True []) KEY_FILE"
    by (simp_all add: demo_system_def CERT_FILE_def KEY_FILE_def)
  show ?thesis
    by (simp add: run_server_missing [OF a] run_server_missing [OF b])
       (simp add: demo_system_def CERT_FILE_def KEY_FILE_def new_world_def)
qed

text \<open>
  \<^bold>\<open>Claim C8\<close> fails on a standard output that cannot encode U+274C (an ASCII, Latin-1
  or cp1252 console): the certificate is missing, the first \<open>print\<close> raises
  \<open>UnicodeEncodeError\<close>, and \<open>run_server\<close> is left with nothing printed; the line that
  names the two paths never appears, and the script ends with status 1.
\<close>

theorem diagnostic_lost_on_ascii_stdout:
  "main ((demo_system False True [])\<lparr>stdout_encodes := (\<lambda>t. False)\<rparr>) new_world =
     (Some 1, new_world)
   \<and> stdout (snd (main ((demo_system False True [])\<lparr>stdout_encodes := (\<lambda>t. False)\<rparr>)
                    new_world)) = []"
proof -
  have a: "\<not> path_exists ((demo_system False True [])\<lparr>stdout_encodes := (\<lambda>t. False)\<rparr>) CERT_FILE
           \<or> \<not> path_exists ((demo_system False True [])\<lparr>stdout_encodes := (\<lambda>t. False)\<rparr>) KEY_FILE"
    by (simp add: demo_system_def CERT_FILE_def KEY_FILE_def)
  show ?thesis
    by (simp add: main_def exit_status_def run_server_missing [OF a]) (simp add: new_world_def)
qed

subsection \<open>The interrupt\<close>

text \<open>
  \<^bold>\<open>Claim C7\<close>. The server has started (both files exist, the port could be bound, the
  key material was accepted, the banner with the working directory was printed) and the
  interrupt reaches the accept loop after the events \<open>before\<close>. Then the loop raises
  \<open>KeyboardInterrupt\<close> and serves nothing that comes after the interrupt, \<open>run_server\<close>
  catches the exception and returns, the last line printed is the shutdown notice, and the
  process exits with status 0.
\<close>

theorem interrupt_stops_server:
  assumes "path_exists S CERT_FILE" and "path_exists S KEY_FILE"
      and "server_bind S = None" and "load_cert_chain S CERT_FILE KEY_FILE = None"
      and "list_all ascii (getcwd S) \<or> stdout_encodes S (''Serving files from: '' @ getcwd S)"
      and "events S = before @ Interrupt # after" and "Interrupt \<notin> set before"
  shows "fst (serve_forever S (events S) w') = Raised KeyboardInterrupt
         \<and> serve_forever S (events S) w' = serve_forever S (before @ [Interrupt]) w'
         \<and> fst (run_server S w) = Returned
         \<and> last (stdout (snd (run_server S w))) = [LF, LF] @ ''Server stopped''
         \<and> fst (main S w) = Some 0"
proof -
  have i: "Interrupt \<in> set (events S)"
    using assms(6) by simp
  have r: "fst (run_server S w) = Returned
           \<and> stdout (snd (run_server S w)) = stdout w @ banner S @ [[LF, LF] @ ''Server stopped'']"
    using run_server_interrupted [OF assms(1-5) i] .
  have m: "fst (main S w) = Some 0"
    using r by (simp add: fst_main exit_status_def)
  show ?thesis
    using serve_forever_Interrupt [OF i, of S w'] serve_forever_stops [of S before after w'] r m
    by (simp add: assms(6))
qed

text \<open>Witness for C7: a failed handshake, then the interrupt, then another connection
  attempt.\<close>

theorem interrupt_stops_server_witness:
  "fst (serve_forever (demo_system True True [HandshakeFailure, Interrupt, HandshakeFailure])
          [HandshakeFailure, Interrupt, HandshakeFailure] new_world) = Raised KeyboardInterrupt
   \<and> fst (run_server (demo_system True True [HandshakeFailure, Interrupt, HandshakeFailure]) new_world) = Returned
   \<and> last (stdout (snd (run_server (demo_system True True [HandshakeFailure, Interrupt, HandshakeFailure]) new_world)))
       = [LF, LF] @ ''Server stopped''
   \<and> fst (main (demo_system True True [HandshakeFailure, Interrupt, HandshakeFailure]) new_world) = Some 0"
proof -
  let ?S = "demo_system True True [HandshakeFailure, Interrupt, HandshakeFailure]"
  have a: "path_exists ?S CERT_FILE" "path_exists ?S KEY_FILE" "server_bind ?S = None"
    "load_cert_chain ?S CERT_FILE KEY_FILE = None"
    "list_all ascii (getcwd ?S) \<or> stdout_encodes ?S (''Serving files from: '' @ getcwd ?S)"
    by (simp_all add: demo_system_def CERT_FILE_def KEY_FILE_def)
  have e: "events ?S = [HandshakeFailure] @ Interrupt # [HandshakeFailure]"
    by (simp add: demo_system_def)
  have n: "Interrupt \<notin> set [HandshakeFailure]"
    by simp
  show ?thesis
    using interrupt_stops_server [OF a e n, of new_world new_world]
    by (simp add: demo_system_def)
qed

text \<open>
  \<^bold>\<open>Claim C9\<close> fails on the same standard output as C8: the certificate is missing, the
  first \<open>print\<close> raises \<open>UnicodeEncodeError\<close>, nothing catches it, and the process exits
  with status 1, where a run that started and was stopped by the interrupt exits with
  status 0.
\<close>

theorem startup_failure_exits_with_status_one:
  "fst (main ((demo_system False True [])\<lparr>stdout_encodes := (\<lambda>t. False)\<rparr>) new_world) = Some 1
   \<and> fst (main (demo_system True True [Interrupt]) new_world) = Some 0"
proof -
  let ?S = "(demo_system False True [])\<lparr>stdout_encodes := (\<lambda>t. False)\<rparr>"
  let ?S' = "demo_system True True [Interrupt]"
  have a: "\<not> path_exists ?S CERT_FILE \<or> \<not> path_exists ?S KEY_FILE"
    by (simp add: demo_system_def CERT_FILE_def KEY_FILE_def)
  have b: "path_exists ?S' CERT_FILE" "path_exists ?S' KEY_FILE" "server_bind ?S' = None"
    "load_cert_chain ?S' CERT_FILE KEY_FILE = None"
    "list_all ascii (getcwd ?S') \<or> stdout_encodes ?S' (''Serving files from: '' @ getcwd ?S')"
    "Interrupt \<in> set (events ?S')"
    by (simp_all add: demo_system_def CERT_FILE_def KEY_FILE_def)
  show ?thesis
    using run_server_interrupted [OF b, of new_world]
    by (simp add: fst_main exit_status_def run_server_missing [OF a])
qed
section \<open>The request handler\<close>

subsection \<open>Auxiliary facts about the header buffer\<close>

lemma lower_not_connection: "length k \<noteq> 10 \<Longrightarrow> lower k \<noteq> ''connection''"
  by (auto simp: lower_def)

lemma send_header_sel [simp]:
  "wfile (send_header k v s) = wfile s"
  "request_version (send_header k v s) = request_version s"
  "command (send_header k v s) = command s"
  "path (send_header k v s) = path s"
  "headers (send_header k v s) = headers s"
  "requestline (send_header k v s) = requestline s"
  by (simp_all add: send_header_def Let_def)

lemma buffered_send_header [simp]:
  "buffered (send_header k v s) =
     (if request_version s = ''HTTP/0.9'' then buffered s else buffered s @ [header_line k v])"
  by (simp add: send_header_def Let_def buffered_def)

lemma send_header_09:
  "request_version s = ''HTTP/0.9'' \<Longrightarrow> headers_buffer (send_header k v s) = headers_buffer s"
  by (simp add: send_header_def Let_def)

lemma send_response_only_sel [simp]:
  "wfile (send_response_only E c m s) = wfile s"
  "request_version (send_response_only E c m s) = request_version s"
  "command (send_response_only E c m s) = command s"
  "path (send_response_only E c m s) = path s"
  "headers (send_response_only E c m s) = headers s"
  "requestline (send_response_only E c m s) = requestline s"
  "close_connection (send_response_only E c m s) = close_connection s"
  by (simp_all add: send_response_only_def Let_def)

lemma buffered_send_response_only [simp]:
  "buffered (send_response_only E c m s) =
     (if request_version s = ''HTTP/0.9'' then buffered s
      else buffered s @ [status_line c (phrase E c m)])"
  by (simp add: send_response_only_def Let_def buffered_def phrase_def)

lemma end_headers_eq:
  assumes "request_version s \<noteq> ''HTTP/0.9''"
  shows "end_headers s =
           (None,
            s\<lparr>headers_buffer := Some [],
              wfile := wfile s @ concat (buffered s)
                       @ header_line ''Access-Control-Allow-Origin'' ''*''
                       @ header_line ''Access-Control-Allow-Methods'' ''GET, POST, OPTIONS''
                       @ header_line ''Access-Control-Allow-Headers'' ''Content-Type''
                       @ CRLF\<rparr>)"
  using assms
  by (simp add: end_headers_def super_end_headers_def flush_headers_def send_header_def
      buffered_def Let_def lower_not_connection)

lemma end_headers_09: "request_version s = ''HTTP/0.9'' \<Longrightarrow> end_headers s = (None, s)"
  by (simp add: end_headers_def super_end_headers_def send_header_def Let_def lower_not_connection)

lemma send_response_sel [simp]:
  "wfile (send_response E c m s) = wfile s"
  "request_version (send_response E c m s) = request_version s"
  "command (send_response E c m s) = command s"
  "path (send_response E c m s) = path s"
  "headers (send_response E c m s) = headers s"
  "requestline (send_response E c m s) = requestline s"
  by (simp_all add: send_response_def Let_def)

lemma buffered_send_response:
  "concat (buffered (send_response E c m s)) =
     (if request_version s = ''HTTP/0.9'' then concat (buffered s)
      else concat (buffered s) @ response_head E c m)"
  by (simp add: send_response_def Let_def response_head_def)

lemma end_headers_sel [simp]:
  "fst (end_headers s) = None"
  "request_version (snd (end_headers s)) = request_version s"
  "command (snd (end_headers s)) = command s"
  "path (snd (end_headers s)) = path s"
  "headers (snd (end_headers s)) = headers s"
  "requestline (snd (end_headers s)) = requestline s"
  by (cases "request_version s = ''HTTP/0.9''";
      simp add: end_headers_09 end_headers_eq)+

lemma wfile_end_headers:
  "wfile (snd (end_headers s)) =
     (if request_version s = ''HTTP/0.9'' then wfile s
      else wfile s @ concat (buffered s) @ cors_block @ CRLF)"
  by (simp add: end_headers_09 end_headers_eq cors_block_def)

lemma end_headers_eq_iff [simp]:
  "end_headers s = (r, s') \<longleftrightarrow> r = None \<and> s' = snd (end_headers s)"
  by (metis end_headers_sel(1) prod.collapse fst_conv snd_conv)

lemma send_error_sel [simp]:
  "fst (send_error E code m x s) = None"
  "request_version (snd (send_error E code m x s)) = request_version s"
  "command (snd (send_error E code m x s)) = command s"
  by (simp_all add: send_error_def Let_def split_beta split: prod.splits option.splits)

lemma send_error_eq_iff [simp]:
  "send_error E code m x s = (r, s') \<longleftrightarrow> r = None \<and> s' = snd (send_error E code m x s)"
  by (metis send_error_sel(1) prod.collapse fst_conv snd_conv)

lemma wfile_send_error:
  "wfile (snd (send_error E code m x s)) =
     wfile s
     @ (if request_version s = ''HTTP/0.9'' then []
        else concat (buffered s) @ error_head E code m x @ cors_block @ CRLF)
     @ (case error_body E code m x of
          None \<Rightarrow> []
        | Some b \<Rightarrow> if command s \<noteq> Some ''HEAD'' then b else [])"
  by (simp add: send_error_def Let_def split_beta error_body_def error_head_def
      wfile_end_headers buffered_send_response split: prod.splits option.splits)

subsection \<open>Every response is a status line, base headers, the CORS headers\<close>

lemma header_block_simps [simp]:
  "header_block [] = []"
  "header_block ((k, v) # hs) = header_line k v @ header_block hs"
  "header_block (hs @ hs') = header_block hs @ header_block hs'"
  by (simp_all add: header_block_def)

lemma single_line_simps [simp]:
  "single_line []"
  "single_line (c # t) \<longleftrightarrow> c \<noteq> LF \<and> single_line t"
  "single_line (t @ u) \<longleftrightarrow> single_line t \<and> single_line u"
  by (auto simp: single_line_def)

lemma single_line_str_of_nat [simp]: "single_line (str_of_nat n)"
proof (induction n rule: str_of_nat.induct)
  case (1 n)
  have d: "char_of (48 + k) \<noteq> LF" if "k < 10" for k :: nat
  proof
    assume "char_of (48 + k) = LF"
    then have "(of_char (char_of (48 + k) :: char) :: nat) = of_char LF"
      by simp
    then show False
      using that by (simp add: LF_def)
  qed
  show ?case
  proof (cases "n < 10")
    case True
    then show ?thesis
      using d [of n] by (subst str_of_nat.simps) simp
  next
    case False
    then show ?thesis
      using 1 d [of "n mod 10"] by (subst str_of_nat.simps) simp
  qed
qed

lemma library_linesD:
  assumes "library_lines E"
  shows "single_line (version_string E)" "single_line (date_time_now E)"
    "single_line (filesystemencoding E)" "single_line (repr E x)"
    "single_line (guess_type E p)" "single_line (redirect_url E p)"
    "single_line (phrase E c None)"
    "single_line (fst (case responses E c of Some r \<Rightarrow> r | None \<Rightarrow> (''???'', ''???'')))"
    "date_time_string E t = Inr d \<Longrightarrow> single_line d"
proof -
  have r: "single_line (case responses E c of Some r \<Rightarrow> fst r | None \<Rightarrow> [])"
    and t: "single_line (case date_time_string E t of Inr d \<Rightarrow> d | Inl e \<Rightarrow> [])"
    using assms by (simp_all add: library_lines_def)
  show "single_line (version_string E)" "single_line (date_time_now E)"
    "single_line (filesystemencoding E)" "single_line (repr E x)"
    "single_line (guess_type E p)" "single_line (redirect_url E p)"
    using assms by (simp_all add: library_lines_def)
  show "single_line (phrase E c None)"
    using r by (simp add: phrase_def)
  show "single_line (fst (case responses E c of Some r \<Rightarrow> r | None \<Rightarrow> (''???'', ''???'')))"
    using r by (cases "responses E c") (simp_all add: LF_def)
  show "date_time_string E t = Inr d \<Longrightarrow> single_line d"
    using t by simp
qed

lemma pending_send_response_only:
  assumes "request_version s \<noteq> ''HTTP/0.9''"
      and "library_lines E \<Longrightarrow> single_line (phrase E c m)"
  shows "pending E s (send_response_only E c m s)"
  unfolding pending_def
  by (intro conjI exI [of _ c] exI [of _ "phrase E c m"] exI [of _ "[]"])
     (use assms in simp_all)

lemma pending_send_header:
  assumes "pending E s t" and "request_version s \<noteq> ''HTTP/0.9''"
      and "k \<in> set base_keywords" and "library_lines E \<Longrightarrow> single_line v"
  shows "pending E s (send_header k v t)"
proof -
  obtain code message hs where b: "buffered t = buffered s @ status_line code message
        # map (\<lambda>(k, v). header_line k v) hs"
    and h: "list_all (\<lambda>(k, v). k \<in> set base_keywords) hs"
    and l: "library_lines E \<longrightarrow> single_line message \<and> list_all (\<lambda>(k, v). single_line v) hs"
    and sel: "wfile t = wfile s" "request_version t = request_version s"
      "command t = command s"
    using assms(1) by (auto simp: pending_def)
  have "buffered (send_header k v t) = buffered s @ status_line code message
          # map (\<lambda>(k, v). header_line k v) (hs @ [(k, v)])"
    using b sel assms(2) by simp
  moreover have "list_all (\<lambda>(k, v). k \<in> set base_keywords) (hs @ [(k, v)])"
    using h assms(3) by simp
  moreover have "library_lines E \<longrightarrow>
      single_line message \<and> list_all (\<lambda>(k, v). single_line v) (hs @ [(k, v)])"
    using l assms(4) by simp
  ultimately show ?thesis
    unfolding pending_def
    by (intro conjI exI [of _ code] exI [of _ message] exI [of _ "hs @ [(k, v)]"])
       (use sel in simp_all)
qed

lemma pending_send_response:
  assumes "request_version s \<noteq> ''HTTP/0.9''"
      and "library_lines E \<Longrightarrow> single_line (phrase E c m)"
  shows "pending E s (send_response E c m s)"
  unfolding send_response_def Let_def
  by (intro pending_send_header pending_send_response_only assms)
     (simp_all add: base_keywords_def library_linesD)

lemma responds_end_headers:
  assumes "pending E s t" and "request_version s \<noteq> ''HTTP/0.9''"
  shows "responds E s (snd (end_headers t))"
proof -
  obtain code message hs where b: "buffered t = buffered s @ status_line code message
        # map (\<lambda>(k, v). header_line k v) hs"
    and h: "list_all (\<lambda>(k, v). k \<in> set base_keywords) hs"
    and l: "library_lines E \<longrightarrow> single_line message \<and> list_all (\<lambda>(k, v). single_line v) hs"
    and sel: "wfile t = wfile s" "request_version t = request_version s"
    using assms(1) by (auto simp: pending_def)
  have "wfile (snd (end_headers t)) =
          wfile s @ concat (buffered s) @ status_line code message @ header_block hs
          @ cors_block @ CRLF @ []"
    using b sel assms(2) by (simp add: wfile_end_headers header_block_def)
  then show ?thesis
    unfolding responds_def using h l by blast
qed

lemma responds_more:
  "responds E s s' \<Longrightarrow> wfile s'' = wfile s' @ extra \<Longrightarrow> responds E s s''"
proof -
  assume "responds E s s'" and w: "wfile s'' = wfile s' @ extra"
  then obtain code message hs body where
    "wfile s' = wfile s @ concat (buffered s) @ status_line code message
                   @ header_block hs @ cors_block @ CRLF @ body"
    and h: "list_all (\<lambda>(k, v). k \<in> set base_keywords) hs"
    and l: "library_lines E \<longrightarrow> single_line message \<and> list_all (\<lambda>(k, v). single_line v) hs"
    by (auto simp: responds_def)
  then have "wfile s'' = wfile s @ concat (buffered s) @ status_line code message
                   @ header_block hs @ cors_block @ CRLF @ (body @ extra)"
    using w by simp
  then show ?thesis
    unfolding responds_def using h l by blast
qed

lemma responds_send_error:
  assumes "request_version s \<noteq> ''HTTP/0.9''"
      and "\<And>msg. library_lines E \<Longrightarrow> m = Some msg \<Longrightarrow> single_line msg"
  shows "responds E s (snd (send_error E code m x s))"
proof -
  define msg where "msg = (case m of
      None \<Rightarrow> fst (case responses E code of Some r \<Rightarrow> r | None \<Rightarrow> (''???'', ''???''))
    | Some y \<Rightarrow> y)"
  define s2 where "s2 = send_header ''Connection'' ''close'' (send_response E code (Some msg) s)"
  define s3 where "s3 = (case error_body E code m x of
      None \<Rightarrow> s2
    | Some b \<Rightarrow> send_header ''Content-Length'' (str_of_nat (length b))
                  (send_header ''Content-Type'' error_content_type s2))"
  have sl: "library_lines E \<Longrightarrow> single_line msg"
    using assms(2) by (cases m) (simp_all add: msg_def library_linesD)
  have p2: "pending E s s2"
    unfolding s2_def
    by (intro pending_send_header pending_send_response assms(1))
       (simp_all add: base_keywords_def phrase_def sl LF_def)
  have p3: "pending E s s3"
  proof (cases "error_body E code m x")
    case None
    then show ?thesis using p2 by (simp add: s3_def)
  next
    case (Some b)
    have "pending E s (send_header ''Content-Length'' (str_of_nat (length b))
                  (send_header ''Content-Type'' error_content_type s2))"
      by (intro pending_send_header p2 assms(1))
         (simp_all add: base_keywords_def error_content_type_def LF_def)
    then show ?thesis using Some by (simp add: s3_def)
  qed
  have r: "responds E s (snd (end_headers s3))"
    using responds_end_headers [OF p3 assms(1)] .
  have "\<exists>extra. wfile (snd (send_error E code m x s)) = wfile (snd (end_headers s3)) @ extra"
    by (cases m; cases "responses E code")
       (auto simp: send_error_def Let_def split_beta s3_def s2_def msg_def error_body_def
          split: option.splits)
  then show ?thesis
    using responds_more [OF r] by blast
qed

lemma responds_send_error_repr:
  assumes "request_version s \<noteq> ''HTTP/0.9''" and "single_line a" and "single_line b"
  shows "responds E s (snd (send_error E code (Some (a @ repr E y @ b)) x s))"
  by (rule responds_send_error [OF assms(1)]) (auto simp: assms(2,3) library_linesD)

lemma responds_send_error_lit:
  assumes "request_version s \<noteq> ''HTTP/0.9''" and "single_line msg"
  shows "responds E s (snd (send_error E code (Some msg) x s))"
  by (rule responds_send_error [OF assms(1)]) (auto simp: assms(2))

lemma responds_send_error_none:
  assumes "request_version s \<noteq> ''HTTP/0.9''"
  shows "responds E s (snd (send_error E code None x s))"
  by (rule responds_send_error [OF assms(1)]) simp

lemma list_directory_resp:
  assumes "request_version s \<noteq> ''HTTP/0.9''" and "list_directory E d s = (r, f, s')"
  shows "request_version s' = request_version s \<and> command s' = command s
         \<and> (r \<noteq> None \<longrightarrow> wfile s' = wfile s \<and> f = None)
         \<and> (r = None \<longrightarrow> responds E s s')"
proof (cases "listdir E d")
  case (Inl e)
  have "responds E s (snd (send_error E 404 (Some ''No permission to list directory'') None s))"
    by (rule responds_send_error [OF assms(1)]) (auto simp: LF_def)
  then show ?thesis
    using assms Inl by (cases "e = OSError") (auto simp: list_directory_def split_beta)
next
  case (Inr names)
  show ?thesis
  proof (cases "encode E (join_sep LF (listing_lines E (path s) d names))")
    case (Inl e)
    then show ?thesis
      using assms Inr by (auto simp: list_directory_def)
  next
    case enc: (Inr encoded)
    define s3 where "s3 = send_header ''Content-Length'' (str_of_nat (length encoded))
        (send_header ''Content-type'' (''text/html; charset='' @ filesystemencoding E)
          (send_response E 200 None s))"
    have "pending E s s3"
      unfolding s3_def
      by (intro pending_send_header pending_send_response assms(1))
         (simp_all add: base_keywords_def library_linesD LF_def)
    then have "responds E s (snd (end_headers s3))"
      using responds_end_headers [OF _ assms(1)] by blast
    moreover have "list_directory E d s = (None, Some encoded, snd (end_headers s3))"
      using Inr enc by (simp add: list_directory_def Let_def split_beta s3_def)
    ultimately show ?thesis
      using assms(2) by (auto simp: s3_def)
  qed
qed

lemma send_head_file_resp:
  assumes "request_version s \<noteq> ''HTTP/0.9''" and "send_head_file E p s = (r, f, s')"
  shows "request_version s' = request_version s \<and> command s' = command s
         \<and> (r \<noteq> None \<longrightarrow> wfile s' = wfile s \<and> f = None)
         \<and> (r = None \<longrightarrow> responds E s s')"
proof -
  have nf: "responds E s (snd (send_error E 404 (Some ''File not found'') None s))"
    by (rule responds_send_error [OF assms(1)]) (auto simp: LF_def)
  show ?thesis
  proof (cases "endswith p ''/''")
    case True
    then show ?thesis
      using assms nf by (auto simp: send_head_file_def split_beta)
  next
    case False
    show ?thesis
    proof (cases "open_rb E p")
      case (Inl e)
      then show ?thesis
        using assms False nf by (cases "e = OSError") (auto simp: send_head_file_def split_beta)
    next
      case (Inr fo)
      show ?thesis
      proof (cases "fstat fo")
        case (Inl e)
        then show ?thesis
          using assms False Inr by (auto simp: send_head_file_def)
      next
        case st: (Inr fs)
        define ims where "ims = (if header_in (headers s) ''If-Modified-Since''
                               \<and> \<not> header_in (headers s) ''If-None-Match''
                            then not_modified_since E
                                   (the (header_get (headers s) ''If-Modified-Since''))
                                   (st_mtime fs)
                            else Inr False)"
        show ?thesis
        proof (cases ims)
          case (Inl e)
          then show ?thesis
            using assms False \<open>open_rb E p = Inr fo\<close> st
            by (auto simp: send_head_file_def ims_def [symmetric])
        next
          case (Inr b)
          show ?thesis
          proof (cases b)
            case True
            have "responds E s (snd (end_headers (send_response E 304 None s)))"
              by (intro responds_end_headers pending_send_response assms(1))
                 (simp add: library_linesD)
            then show ?thesis
              using assms False \<open>open_rb E p = Inr fo\<close> st Inr True
              by (auto simp: send_head_file_def ims_def [symmetric] split_beta)
          next
            case nm: False
            define s3 where "s3 = send_header ''Content-Length'' (str_of_nat (st_size fs))
                (send_header ''Content-type'' (guess_type E p) (send_response E 200 None s))"
            have p3: "pending E s s3"
              unfolding s3_def
              by (intro pending_send_header pending_send_response assms(1))
                 (simp_all add: base_keywords_def library_linesD)
            have s3_sel: "wfile s3 = wfile s" "request_version s3 = request_version s"
              "command s3 = command s"
              by (simp_all add: s3_def)
            show ?thesis
            proof (cases "date_time_string E (st_mtime fs)")
              case (Inl e)
              then have "send_head_file E p s = (Some e, None, s3)"
                using False \<open>open_rb E p = Inr fo\<close> st Inr nm
                by (simp add: send_head_file_def ims_def [symmetric] Let_def s3_def)
              then show ?thesis
                using assms(2) s3_sel by auto
            next
              case lm: (Inr last_modified)
              have "pending E s (send_header ''Last-Modified'' last_modified s3)"
                by (intro pending_send_header p3 assms(1))
                   (simp_all add: base_keywords_def library_linesD(9) [OF _ lm])
              then have "responds E s
                  (snd (end_headers (send_header ''Last-Modified'' last_modified s3)))"
                using responds_end_headers [OF _ assms(1)] by blast
              moreover have "send_head_file E p s =
                  (None, Some (contents fo),
                   snd (end_headers (send_header ''Last-Modified'' last_modified s3)))"
                using False \<open>open_rb E p = Inr fo\<close> st Inr nm lm
                by (simp add: send_head_file_def ims_def [symmetric] Let_def s3_def split_beta)
              ultimately show ?thesis
                using assms(2) s3_sel by auto
            qed
          qed
        qed
      qed
    qed
  qed
qed

lemma send_head_resp:
  assumes "request_version s \<noteq> ''HTTP/0.9''" and "send_head E s = (r, f, s')"
  shows "request_version s' = request_version s \<and> command s' = command s
         \<and> (r \<noteq> None \<longrightarrow> wfile s' = wfile s \<and> f = None)
         \<and> (r = None \<longrightarrow> responds E s s')"
proof -
  define p0 where "p0 = translate_path E (path s)"
  consider (redirect) "isdir E p0 \<and> \<not> endswith (urlsplit_path E (path s)) ''/''"
    | (listing) "\<not> (isdir E p0 \<and> \<not> endswith (urlsplit_path E (path s)) ''/'')"
        "isdir E p0 \<and> \<not> isfile E (posix_join p0 ''index.html'')
         \<and> \<not> isfile E (posix_join p0 ''index.htm'')"
    | (regular) "\<not> (isdir E p0 \<and> \<not> endswith (urlsplit_path E (path s)) ''/'')"
        "\<not> (isdir E p0 \<and> \<not> isfile E (posix_join p0 ''index.html'')
         \<and> \<not> isfile E (posix_join p0 ''index.htm''))"
    by blast
  then show ?thesis
  proof cases
    case redirect
    then have "send_head E s = (None, None, snd (end_headers
        (send_header ''Content-Length'' ''0''
          (send_header ''Location'' (redirect_url E (path s)) (send_response E 301 None s)))))"
      by (simp add: send_head_def Let_def p0_def split_beta)
    moreover have "responds E s (snd (end_headers
        (send_header ''Content-Length'' ''0''
          (send_header ''Location'' (redirect_url E (path s)) (send_response E 301 None s)))))"
      by (intro responds_end_headers pending_send_header pending_send_response assms(1))
         (simp_all add: base_keywords_def library_linesD LF_def)
    ultimately show ?thesis
      using assms by simp
  next
    case listing
    then have "send_head E s = list_directory E p0 s"
      by (simp add: send_head_def Let_def p0_def)
    then show ?thesis
      using assms list_directory_resp [OF assms(1), of E p0 r f s'] by simp
  next
    case regular
    then have "\<exists>p1. send_head E s = send_head_file E p1 s"
      by (cases "isdir E p0") (auto simp: send_head_def Let_def p0_def)
    then obtain p1 where "send_head E s = send_head_file E p1 s" ..
    then show ?thesis
      using assms send_head_file_resp [OF assms(1), of E p1 r f s'] by simp
  qed
qed

lemma do_GET_resp:
  assumes "request_version s \<noteq> ''HTTP/0.9''" and "do_GET E s = (r, s')"
  shows "request_version s' = request_version s
         \<and> (r \<noteq> None \<longrightarrow> wfile s' = wfile s)
         \<and> (r = None \<longrightarrow> responds E s s')"
proof -
  obtain r0 f s0 where h: "send_head E s = (r0, f, s0)"
    by (cases "send_head E s") auto
  note sh = send_head_resp [OF assms(1) h]
  show ?thesis
  proof (cases r0)
    case (Some e)
    then show ?thesis using assms(2) h sh by (simp add: do_GET_def)
  next
    case None
    then show ?thesis
      using assms(2) h sh
      by (cases f) (auto simp: do_GET_def intro: responds_more)
  qed
qed

lemma do_HEAD_resp:
  assumes "request_version s \<noteq> ''HTTP/0.9''" and "do_HEAD E s = (r, s')"
  shows "request_version s' = request_version s
         \<and> (r \<noteq> None \<longrightarrow> wfile s' = wfile s)
         \<and> (r = None \<longrightarrow> responds E s s')"
proof -
  obtain r0 f s0 where h: "send_head E s = (r0, f, s0)"
    by (cases "send_head E s") auto
  show ?thesis
    using assms(2) h send_head_resp [OF assms(1) h] by (auto simp: do_HEAD_def)
qed

lemma not_protocol_1_1 [simp]: "\<not> str_ge protocol_version ''HTTP/1.1''"
  by (simp add: str_ge_def protocol_version_def)

lemma buffered_update [simp]:
  "buffered (s\<lparr>command := a\<rparr>) = buffered s"
  "buffered (s\<lparr>path := b\<rparr>) = buffered s"
  "buffered (s\<lparr>request_version := c\<rparr>) = buffered s"
  "buffered (s\<lparr>requestline := d\<rparr>) = buffered s"
  "buffered (s\<lparr>headers := e\<rparr>) = buffered s"
  "buffered (s\<lparr>close_connection := f\<rparr>) = buffered s"
  "buffered (s\<lparr>wfile := g\<rparr>) = buffered s"
  by (simp_all add: buffered_def)

lemma responds_cong:
  "wfile t = wfile s \<Longrightarrow> buffered t = buffered s \<Longrightarrow> responds E t s' = responds E s s'"
  by (simp add: responds_def)

lemma parse_request_headers_resp:
  assumes "parse_request_headers E rq t = (r, ok, s1)"
  shows "r = None \<and> request_version s1 = request_version t \<and> command s1 = command t
         \<and> (ok \<longrightarrow> wfile s1 = wfile t \<and> buffered s1 = buffered t)
         \<and> (\<not> ok \<longrightarrow> request_version t \<noteq> ''HTTP/0.9'' \<longrightarrow> responds E t s1)"
proof (cases "header_lines rq")
  case (Headers hs)
  then show ?thesis
    using assms by (auto simp: parse_request_headers_def Let_def)
next
  case (LineTooLong err)
  then show ?thesis
    using assms
    by (auto simp: parse_request_headers_def split_beta responds_send_error_lit LF_def)
next
  case (TooManyHeaders err)
  then show ?thesis
    using assms
    by (auto simp: parse_request_headers_def split_beta responds_send_error_lit LF_def)
qed

lemma parse_request_tail_resp:
  assumes "parse_request_tail E rq ws t = (r, ok, s1)"
  shows "r = None \<and> request_version s1 = request_version t
         \<and> (ok \<longrightarrow> wfile s1 = wfile t \<and> buffered s1 = buffered t
                   \<and> command s1 = Some (ws ! 0) \<and> (length ws = 2 \<or> length ws = 3)
                   \<and> (length ws = 2 \<longrightarrow> ws ! 0 = ''GET''))
         \<and> (\<not> ok \<longrightarrow> request_version t \<noteq> ''HTTP/0.9'' \<longrightarrow> responds E t s1)"
proof (cases "2 \<le> length ws \<and> length ws \<le> 3")
  case False
  then show ?thesis
    using assms
      responds_send_error_repr [of t "''Bad request syntax (''" "'')''" E 400 "requestline t" None]
    by (auto simp: parse_request_tail_def split_beta LF_def)
next
  case True
  show ?thesis
  proof (cases "length ws = 2 \<and> ws ! 0 \<noteq> ''GET''")
    case bad: True
    define t1 where "t1 = t\<lparr>close_connection := True\<rparr>"
    have "parse_request_tail E rq ws t =
            (None, False, snd (send_error E 400
               (Some (''Bad HTTP/0.9 request type ('' @ repr E (ws ! 0) @ '')'')) None t1))"
      using True bad by (simp add: parse_request_tail_def Let_def split_beta t1_def)
    moreover have "request_version t \<noteq> ''HTTP/0.9'' \<Longrightarrow>
        responds E t (snd (send_error E 400
               (Some (''Bad HTTP/0.9 request type ('' @ repr E (ws ! 0) @ '')'')) None t1))"
      using responds_send_error_repr [of t1 "''Bad HTTP/0.9 request type (''" "'')''"
          E 400 "ws ! 0" None] responds_cong [of t1 t E]
      by (simp add: t1_def LF_def)
    ultimately show ?thesis
      using assms by (auto simp: t1_def)
  next
    case good: False
    obtain t3 where t3: "parse_request_tail E rq ws t = parse_request_headers E rq t3"
      and t3_sel: "wfile t3 = wfile t" "buffered t3 = buffered t"
        "request_version t3 = request_version t" "command t3 = Some (ws ! 0)"
      using True good by (auto simp: parse_request_tail_def Let_def)
    have "responds E t3 s1 = responds E t s1"
      using responds_cong [of t3 t E s1] t3_sel by simp
    then show ?thesis
      using assms t3 t3_sel True good parse_request_headers_resp [of E rq t3 r ok s1]
      by auto
  qed
qed

lemma parse_request_resp:
  assumes "parse_request E rq s = (r, ok, s1)"
  shows "r = None
         \<and> (ok \<longrightarrow> wfile s1 = wfile s \<and> buffered s1 = buffered s \<and> command s1 \<noteq> None)
         \<and> (\<not> ok \<longrightarrow> wfile s1 = wfile s \<or> request_version s1 = ''HTTP/0.9'' \<or> responds E s s1)"
proof -
  define s0 where "s0 = s\<lparr>command := None, request_version := default_request_version,
      close_connection := True,
      requestline := rstrip (\<lambda>c. c = CR \<or> c = LF) (raw_requestline rq)\<rparr>"
  define ws where "ws = py_split (requestline s0)"
  have s0_sel: "wfile s0 = wfile s" "buffered s0 = buffered s"
    "request_version s0 = ''HTTP/0.9''"
    by (simp_all add: s0_def default_request_version_def)
  have tail: "r = None
         \<and> (ok \<longrightarrow> wfile s1 = wfile s \<and> buffered s1 = buffered s \<and> command s1 \<noteq> None)
         \<and> (\<not> ok \<longrightarrow> wfile s1 = wfile s \<or> request_version s1 = ''HTTP/0.9'' \<or> responds E s s1)"
    if a: "parse_request_tail E rq ws t = (r, ok, s1)"
      and b: "wfile t = wfile s" "buffered t = buffered s" for t
  proof -
    have "responds E t s1 = responds E s s1"
      using responds_cong [of t s E s1] b by simp
    then show ?thesis
      using parse_request_tail_resp [OF a] b by auto
  qed
  show ?thesis
  proof (cases "length ws = 0")
    case True
    then have "parse_request E rq s = (None, False, s0)"
      by (simp add: parse_request_def Let_def s0_def [symmetric] ws_def [symmetric])
    then show ?thesis using assms s0_sel by simp
  next
    case nonempty: False
    show ?thesis
    proof (cases "length ws \<ge> 3")
      case False
      then have "parse_request E rq s = parse_request_tail E rq ws s0"
        using nonempty
        by (simp add: parse_request_def Let_def s0_def [symmetric] ws_def [symmetric])
      then show ?thesis using tail [of s0] assms s0_sel by simp
    next
      case True
      show ?thesis
      proof (cases "parse_version (last ws)")
        case None
        then have "parse_request E rq s = (None, False, snd (send_error E 400
            (Some (''Bad request version ('' @ repr E (last ws) @ '')'')) None s0))"
          using nonempty True
          by (simp add: parse_request_def Let_def split_beta s0_def [symmetric] ws_def [symmetric])
        then show ?thesis using assms s0_sel by auto
      next
        case (Some v)
        obtain major minor where v: "v = (major, minor)" by (cases v)
        have eq: "parse_request E rq s =
            (if major \<ge> 2 then (None, False, snd (send_error E 505
                 (Some (''Invalid HTTP version ('' @ split_once (CHR ''/'') (last ws) ! 1 @ '')''))
                 None s0))
             else parse_request_tail E rq ws (s0\<lparr>request_version := last ws\<rparr>))"
          using nonempty True Some v
          by (simp add: parse_request_def Let_def split_beta s0_def [symmetric]
              ws_def [symmetric])
        show ?thesis
        proof (cases "major \<ge> 2")
          case True
          then show ?thesis using eq assms s0_sel by auto
        next
          case False
          then show ?thesis
            using eq assms s0_sel tail [of "s0\<lparr>request_version := last ws\<rparr>"] by simp
        qed
      qed
    qed
  qed
qed

lemma list_directory_rv:
  "list_directory E d s = (r, f, s') \<Longrightarrow> request_version s' = request_version s"
  by (cases "listdir E d")
     (auto simp: list_directory_def Let_def split_beta split: if_splits sum.splits)

lemma send_head_file_rv:
  "send_head_file E p s = (r, f, s') \<Longrightarrow> request_version s' = request_version s"
  by (cases "open_rb E p")
     (auto simp: send_head_file_def Let_def split_beta split: if_splits sum.splits bool.splits)

lemma send_head_rv:
  "send_head E s = (r, f, s') \<Longrightarrow> request_version s' = request_version s"
  by (auto simp: send_head_def Let_def split_beta list_directory_rv send_head_file_rv
      split: if_splits)

lemma do_GET_rv: "do_GET E s = (r, s') \<Longrightarrow> request_version s' = request_version s"
  by (cases "send_head E s") (auto simp: do_GET_def send_head_rv split: option.splits)

lemma do_HEAD_rv: "do_HEAD E s = (r, s') \<Longrightarrow> request_version s' = request_version s"
  by (cases "send_head E s") (auto simp: do_HEAD_def send_head_rv)

lemma handle_one_request_responds:
  assumes "handle_one_request E rq s = (r, s')"
      and "request_version s' \<noteq> ''HTTP/0.9''" and "wfile s' \<noteq> wfile s"
  shows "responds E s s'"
proof (cases "length (raw_requestline rq) > 65536")
  case True
  define t where "t = s\<lparr>requestline := [], request_version := [], command := Some []\<rparr>"
  have "s' = snd (send_error E 414 None None t)"
    using assms(1) True by (simp add: handle_one_request_def t_def)
  moreover have "responds E t (snd (send_error E 414 None None t))"
    by (rule responds_send_error_none) (simp add: t_def)
  ultimately show ?thesis
    using responds_cong [of t s E s'] by (simp add: t_def)
next
  case short: False
  show ?thesis
  proof (cases "raw_requestline rq = []")
    case True
    then show ?thesis
      using assms(1,3) short by (auto simp: handle_one_request_def)
  next
    case False
    obtain r1 ok s1 where p: "parse_request E rq s = (r1, ok, s1)"
      by (cases "parse_request E rq s") auto
    note pr = parse_request_resp [OF p]
    show ?thesis
    proof (cases ok)
      case False
      then have "s' = s1"
        using assms(1) short \<open>raw_requestline rq \<noteq> []\<close> p pr
        by (simp add: handle_one_request_def)
      then show ?thesis
        using pr False assms(2,3) by auto
    next
      case True
      then have same: "wfile s1 = wfile s" "buffered s1 = buffered s"
        using pr by simp_all
      define cmd where "cmd = (case command s1 of None \<Rightarrow> [] | Some c \<Rightarrow> c)"
      have "handle_one_request E rq s =
               (if cmd = ''GET'' then do_GET E s1
                else if cmd = ''HEAD'' then do_HEAD E s1
                else send_error E 501
                       (Some (''Unsupported method ('' @ repr E cmd @ '')'')) None s1)"
        using short \<open>raw_requestline rq \<noteq> []\<close> p pr True
        by (simp add: handle_one_request_def Let_def cmd_def)
      then have d: "(if cmd = ''GET'' then do_GET E s1
                else if cmd = ''HEAD'' then do_HEAD E s1
                else send_error E 501
                       (Some (''Unsupported method ('' @ repr E cmd @ '')'')) None s1) = (r, s')"
        using assms(1) by simp
      have rv: "request_version s1 = request_version s'"
        using d do_GET_rv [of E s1 r s'] do_HEAD_rv [of E s1 r s']
        by (auto split: if_splits)
      then have v: "request_version s1 \<noteq> ''HTTP/0.9''"
        using assms(2) by simp
      have "responds E s1 s'"
        using d do_GET_resp [OF v, of E r s'] do_HEAD_resp [OF v, of E r s']
          responds_send_error_repr [OF v, of "''Unsupported method (''" "'')''" E 501 cmd None]
          assms(3) same
        by (auto simp: LF_def split: if_splits)
      then show ?thesis
        using responds_cong [of s1 s E s'] same by simp
    qed
  qed
qed

lemma parse_request_nonempty:
  assumes "parse_request E rq s = (r, True, s1)"
  shows "raw_requestline rq \<noteq> []"
proof
  assume "raw_requestline rq = []"
  then have "parse_request E rq s = (None, False,
      s\<lparr>command := None, request_version := default_request_version,
        close_connection := True, requestline := []\<rparr>)"
    by (simp add: parse_request_def Let_def rstrip_def py_split_def)
  then show False using assms by simp
qed

lemma handle_one_request_dispatch:
  assumes "parse_request E rq s = (None, True, s1)"
      and "length (raw_requestline rq) \<le> 65536"
      and "command s1 = Some cmd"
  shows "handle_one_request E rq s =
           (if cmd = ''GET'' then do_GET E s1
            else if cmd = ''HEAD'' then do_HEAD E s1
            else send_error E 501 (Some (''Unsupported method ('' @ repr E cmd @ '')'')) None s1)"
    and "wfile s1 = wfile s" and "buffered s1 = buffered s"
  using assms parse_request_nonempty [OF assms(1)] parse_request_resp [OF assms(1)]
  by (simp_all add: handle_one_request_def Let_def)

subsection \<open>The answers to accepted requests\<close>

lemma send_head_file_opened:
  assumes "\<not> endswith p ''/''" and "open_rb E p = Inr f" and "fstat f = Inr fs"
  shows "send_head_file E p s =
           (case (if header_in (headers s) ''If-Modified-Since''
                     \<and> \<not> header_in (headers s) ''If-None-Match''
                  then not_modified_since E (the (header_get (headers s) ''If-Modified-Since''))
                         (st_mtime fs)
                  else Inr False) of
              Inl e \<Rightarrow> (Some e, None, s)
            | Inr True \<Rightarrow>
                (case end_headers (send_response E 304 None s) of (r, s') \<Rightarrow> (r, None, s'))
            | Inr False \<Rightarrow>
                (let s1 = send_response E 200 None s;
                     s2 = send_header ''Content-type'' (guess_type E p) s1;
                     s3 = send_header ''Content-Length'' (str_of_nat (st_size fs)) s2
                 in case date_time_string E (st_mtime fs) of
                      Inl e \<Rightarrow> (Some e, None, s3)
                    | Inr last_modified \<Rightarrow>
                        (case end_headers (send_header ''Last-Modified'' last_modified s3) of
                           (r, s5) \<Rightarrow> (r, Some (contents f), s5))))"
  using assms by (simp add: send_head_file_def)

lemma send_head_regular:
  assumes "request_version s \<noteq> ''HTTP/0.9''"
      and "\<not> isdir E (translate_path E (path s))"
      and "\<not> endswith (translate_path E (path s)) ''/''"
      and "open_rb E (translate_path E (path s)) = Inr f"
      and "fstat f = Inr fs"
      and "(if header_in (headers s) ''If-Modified-Since''
               \<and> \<not> header_in (headers s) ''If-None-Match''
            then not_modified_since E (the (header_get (headers s) ''If-Modified-Since''))
                   (st_mtime fs)
            else Inr False) = Inr False"
      and "date_time_string E (st_mtime fs) = Inr last_modified"
  shows "\<exists>s'. send_head E s = (None, Some (contents f), s')
           \<and> wfile s' = wfile s @ concat (buffered s)
               @ status_line 200 (phrase E 200 None)
               @ header_line ''Server'' (version_string E)
               @ header_line ''Date'' (date_time_now E)
               @ header_line ''Content-type'' (guess_type E (translate_path E (path s)))
               @ header_line ''Content-Length'' (str_of_nat (st_size fs))
               @ header_line ''Last-Modified'' last_modified
               @ cors_block @ CRLF"
proof -
  have "send_head E s = send_head_file E (translate_path E (path s)) s"
    using assms(2) by (simp add: send_head_def Let_def)
  then show ?thesis
    using assms(1,7)
    unfolding send_head_file_opened [OF assms(3,4,5)] assms(6)
    by (simp add: Let_def split_beta wfile_end_headers buffered_send_response response_head_def)
qed

lemma send_head_not_modified:
  assumes "request_version s \<noteq> ''HTTP/0.9''"
      and "\<not> isdir E (translate_path E (path s))"
      and "\<not> endswith (translate_path E (path s)) ''/''"
      and "open_rb E (translate_path E (path s)) = Inr f"
      and "fstat f = Inr fs"
      and "(if header_in (headers s) ''If-Modified-Since''
               \<and> \<not> header_in (headers s) ''If-None-Match''
            then not_modified_since E (the (header_get (headers s) ''If-Modified-Since''))
                   (st_mtime fs)
            else Inr False) = Inr True"
  shows "\<exists>s'. send_head E s = (None, None, s')
           \<and> wfile s' = wfile s @ concat (buffered s)
               @ status_line 304 (phrase E 304 None)
               @ header_line ''Server'' (version_string E)
               @ header_line ''Date'' (date_time_now E)
               @ cors_block @ CRLF"
proof -
  have "send_head E s = send_head_file E (translate_path E (path s)) s"
    using assms(2) by (simp add: send_head_def Let_def)
  then show ?thesis
    using assms(1)
    unfolding send_head_file_opened [OF assms(3,4,5)] assms(6)
    by (simp add: Let_def split_beta wfile_end_headers buffered_send_response response_head_def)
qed

lemma send_head_open_raises:
  assumes "\<not> isdir E (translate_path E (path s))"
      and "\<not> endswith (translate_path E (path s)) ''/''"
      and "open_rb E (translate_path E (path s)) = Inl e" and "e \<noteq> OSError"
  shows "send_head E s = (Some e, None, s)"
proof -
  have "send_head E s = send_head_file E (translate_path E (path s)) s"
    using assms(1) by (simp add: send_head_def Let_def)
  then show ?thesis
    using assms(2-4) by (simp add: send_head_file_def)
qed

lemma send_head_date_raises:
  assumes "\<not> isdir E (translate_path E (path s))"
      and "\<not> endswith (translate_path E (path s)) ''/''"
      and "open_rb E (translate_path E (path s)) = Inr f"
      and "fstat f = Inr fs"
      and "(if header_in (headers s) ''If-Modified-Since''
               \<and> \<not> header_in (headers s) ''If-None-Match''
            then not_modified_since E (the (header_get (headers s) ''If-Modified-Since''))
                   (st_mtime fs)
            else Inr False) = Inr False"
      and "date_time_string E (st_mtime fs) = Inl e"
  shows "\<exists>s'. send_head E s = (Some e, None, s') \<and> wfile s' = wfile s"
proof -
  have "send_head E s = send_head_file E (translate_path E (path s)) s"
    using assms(1) by (simp add: send_head_def Let_def)
  then show ?thesis
    using assms(6)
    unfolding send_head_file_opened [OF assms(2,3,4)] assms(5)
    by (simp add: Let_def)
qed

lemma send_head_missing:
  assumes "request_version s \<noteq> ''HTTP/0.9''"
      and "\<not> isdir E (translate_path E (path s))"
      and "open_rb E (translate_path E (path s)) = Inl OSError"
  shows "send_head E s = (None, None, snd (send_error E 404 (Some ''File not found'') None s))"
proof -
  have "send_head E s = send_head_file E (translate_path E (path s)) s"
    using assms(2) by (simp add: send_head_def Let_def)
  then show ?thesis
    using assms(3) by (simp add: send_head_file_def Let_def split_beta)
qed

lemma handle_get_regular:
  assumes "length (raw_requestline rq) \<le> 65536"
      and "parse_request E rq s = (None, True, s1)"
      and "command s1 = Some ''GET'' \<or> command s1 = Some ''HEAD''"
      and "request_version s1 \<noteq> ''HTTP/0.9''"
      and "\<not> isdir E (translate_path E (path s1))"
      and "\<not> endswith (translate_path E (path s1)) ''/''"
      and "open_rb E (translate_path E (path s1)) = Inr f"
      and "fstat f = Inr fs"
      and "(if header_in (headers s1) ''If-Modified-Since''
               \<and> \<not> header_in (headers s1) ''If-None-Match''
            then not_modified_since E (the (header_get (headers s1) ''If-Modified-Since''))
                   (st_mtime fs)
            else Inr False) = Inr False"
      and "date_time_string E (st_mtime fs) = Inr last_modified"
  shows "\<exists>s'. handle_one_request E rq s = (None, s')
           \<and> request_version s' = request_version s1
           \<and> wfile s' = wfile s @ concat (buffered s)
               @ status_line 200 (phrase E 200 None)
               @ header_line ''Server'' (version_string E)
               @ header_line ''Date'' (date_time_now E)
               @ header_line ''Content-type'' (guess_type E (translate_path E (path s1)))
               @ header_line ''Content-Length'' (str_of_nat (st_size fs))
               @ header_line ''Last-Modified'' last_modified
               @ cors_block @ CRLF
               @ (if command s1 = Some ''GET'' then contents f else [])"
proof -
  obtain cmd where c: "command s1 = Some cmd" and g: "cmd = ''GET'' \<or> cmd = ''HEAD''"
    using assms(3) by auto
  note d = handle_one_request_dispatch [OF assms(2,1) c]
  obtain s2 where s2: "send_head E s1 = (None, Some (contents f), s2)"
    and w: "wfile s2 = wfile s1 @ concat (buffered s1)
               @ status_line 200 (phrase E 200 None)
               @ header_line ''Server'' (version_string E)
               @ header_line ''Date'' (date_time_now E)
               @ header_line ''Content-type'' (guess_type E (translate_path E (path s1)))
               @ header_line ''Content-Length'' (str_of_nat (st_size fs))
               @ header_line ''Last-Modified'' last_modified
               @ cors_block @ CRLF"
    using send_head_regular [OF assms(4-10)] by blast
  have v: "request_version s2 = request_version s1"
    using send_head_rv [OF s2] .
  have "handle_one_request E rq s =
          (None, if cmd = ''GET'' then s2\<lparr>wfile := wfile s2 @ contents f\<rparr> else s2)"
    using d(1) s2 g by (auto simp: do_GET_def do_HEAD_def)
  then show ?thesis
    using w v c g d(2,3) by auto
qed

lemma handle_get_not_modified:
  assumes "length (raw_requestline rq) \<le> 65536"
      and "parse_request E rq s = (None, True, s1)"
      and "command s1 = Some ''GET'' \<or> command s1 = Some ''HEAD''"
      and "request_version s1 \<noteq> ''HTTP/0.9''"
      and "\<not> isdir E (translate_path E (path s1))"
      and "\<not> endswith (translate_path E (path s1)) ''/''"
      and "open_rb E (translate_path E (path s1)) = Inr f"
      and "fstat f = Inr fs"
      and "(if header_in (headers s1) ''If-Modified-Since''
               \<and> \<not> header_in (headers s1) ''If-None-Match''
            then not_modified_since E (the (header_get (headers s1) ''If-Modified-Since''))
                   (st_mtime fs)
            else Inr False) = Inr True"
  shows "\<exists>s'. handle_one_request E rq s = (None, s')
           \<and> wfile s' = wfile s @ concat (buffered s)
               @ status_line 304 (phrase E 304 None)
               @ header_line ''Server'' (version_string E)
               @ header_line ''Date'' (date_time_now E)
               @ cors_block @ CRLF"
proof -
  obtain cmd where c: "command s1 = Some cmd" and g: "cmd = ''GET'' \<or> cmd = ''HEAD''"
    using assms(3) by auto
  note d = handle_one_request_dispatch [OF assms(2,1) c]
  obtain s2 where s2: "send_head E s1 = (None, None, s2)"
    and w: "wfile s2 = wfile s1 @ concat (buffered s1)
               @ status_line 304 (phrase E 304 None)
               @ header_line ''Server'' (version_string E)
               @ header_line ''Date'' (date_time_now E)
               @ cors_block @ CRLF"
    using send_head_not_modified [OF assms(4-9)] by blast
  have "handle_one_request E rq s = (None, s2)"
    using d(1) s2 g by (auto simp: do_GET_def do_HEAD_def)
  then show ?thesis
    using w d(2,3) by auto
qed

lemma handle_get_raises:
  assumes "length (raw_requestline rq) \<le> 65536"
      and "parse_request E rq s = (None, True, s1)"
      and "command s1 = Some ''GET'' \<or> command s1 = Some ''HEAD''"
      and "send_head E s1 = (Some e, None, s2)" and "wfile s2 = wfile s1"
  shows "handle_one_request E rq s = (Some e, s2) \<and> wfile s2 = wfile s"
proof -
  obtain cmd where c: "command s1 = Some cmd" and g: "cmd = ''GET'' \<or> cmd = ''HEAD''"
    using assms(3) by auto
  note d = handle_one_request_dispatch [OF assms(2,1) c]
  show ?thesis
    using d g assms(4,5) by (auto simp: do_GET_def do_HEAD_def)
qed

lemma handle_missing:
  assumes "length (raw_requestline rq) \<le> 65536"
      and "parse_request E rq s = (None, True, s1)"
      and "command s1 = Some ''GET'' \<or> command s1 = Some ''HEAD''"
      and "request_version s1 \<noteq> ''HTTP/0.9''"
      and "\<not> isdir E (translate_path E (path s1))"
      and "open_rb E (translate_path E (path s1)) = Inl OSError"
  shows "handle_one_request E rq s =
           (None, snd (send_error E 404 (Some ''File not found'') None s1))"
proof -
  obtain cmd where c: "command s1 = Some cmd" and g: "cmd = ''GET'' \<or> cmd = ''HEAD''"
    using assms(3) by auto
  note d = handle_one_request_dispatch [OF assms(2,1) c]
  note m = send_head_missing [OF assms(4-6)]
  show ?thesis
    using d(1) g m by (auto simp: do_GET_def do_HEAD_def)
qed

lemma handle_unsupported:
  assumes "length (raw_requestline rq) \<le> 65536"
      and "parse_request E rq s = (None, True, s1)"
      and "command s1 = Some cmd" and "cmd \<noteq> ''GET''" and "cmd \<noteq> ''HEAD''"
  shows "handle_one_request E rq s =
           (None, snd (send_error E 501
              (Some (''Unsupported method ('' @ repr E cmd @ '')'')) None s1))"
  using handle_one_request_dispatch(1) [OF assms(2,1,3)] assms(4,5) by simp

lemma wfile_send_error_full:
  assumes "request_version s1 \<noteq> ''HTTP/0.9''" and "200 \<le> code" and "code \<noteq> 204"
      and "code \<noteq> 205" and "code \<noteq> 304"
  shows "wfile (snd (send_error E code (Some msg) None s1)) =
           wfile s1 @ concat (buffered s1)
           @ status_line code msg
           @ header_line ''Server'' (version_string E)
           @ header_line ''Date'' (date_time_now E)
           @ header_line ''Connection'' ''close''
           @ header_line ''Content-Type'' error_content_type
           @ header_line ''Content-Length''
               (str_of_nat (length (the (error_body E code (Some msg) None))))
           @ cors_block @ CRLF
           @ (if command s1 \<noteq> Some ''HEAD'' then the (error_body E code (Some msg) None)
              else [])"
  using assms
  by (simp add: wfile_send_error error_head_def response_head_def error_body_def phrase_def)

subsection \<open>Evaluation on the concrete inputs\<close>

text \<open>The definitions a concrete evaluation unfolds, the fields of the concrete machine,
  and what the parser makes of the request lines used below.\<close>

lemmas string_defs = rstrip_def lstrip_def CRLF_def CR_def LF_def py_split_def py_isspace_def
  startswith_def endswith_def split_once_def split_on_def lower_def lower_char_def
  py_isdigit_def ascii_digit_def py_int_def char_of_eq_iff

lemmas path_defs = translate_path_def unquote_def normpath_def translate_step_def
  dirname_def rfind_slash_plus1_def posix_join_def curdir_def pardir_def

lemmas parse_defs = parse_request_def parse_request_tail_def parse_request_headers_def
  parse_version_def default_request_version_def header_get_def new_handler_def

lemma demo_runtime_sel:
  "directory demo_runtime = ''/srv/www''"
  "isdir demo_runtime p = (p = ''/srv/www'' \<or> p = ''/srv/www/''
                           \<or> p = ''/srv/www/pub'' \<or> p = ''/srv/www/pub/'')"
  "isfile demo_runtime p = (p = ''/srv/www/index.html'')"
  "islink demo_runtime p = False"
  "open_rb demo_runtime p =
     (if CHR 0x00 \<in> set p then Inl ValueError
      else if p = ''/srv/www/index.html''
      then Inr \<lparr>contents = ''hello'', fstat = Inr \<lparr>st_size = 5, st_mtime = 0\<rparr>\<rparr>
      else if p = ''/srv/www/etc/passwd''
      then Inr \<lparr>contents = ''inside'', fstat = Inr \<lparr>st_size = 6, st_mtime = 0\<rparr>\<rparr>
      else if p = ''/srv/www/late.txt''
      then Inr \<lparr>contents = ''late'', fstat = Inr \<lparr>st_size = 4, st_mtime = 274877906944\<rparr>\<rparr>
      else Inl OSError)"
  "listdir demo_runtime p =
     (if p = ''/srv/www/pub/'' then Inr [''b.txt'', ''A.txt''] else Inl OSError)"
  "unquote_escapes demo_runtime x = x"
  "guess_type demo_runtime p = ''text/html''"
  "version_string demo_runtime = ''SimpleHTTP/0.6''"
  "date_time_now demo_runtime = ''now''"
  "date_time_string demo_runtime t =
     (if t < 253402300800 then Inr ''then'' else Inl ValueError)"
  "responses demo_runtime c = (if c = 200 then Some (''OK'', ''Request fulfilled'') else None)"
  "repr demo_runtime x = [CHR 0x27] @ replace_char LF [CHR 0x5C, CHR ''n''] x @ [CHR 0x27]"
  "error_page demo_runtime c m e = ''Error '' @ str_of_nat c"
  "urlsplit_path demo_runtime p = p"
  "redirect_url demo_runtime p = replace_char LF [] p @ ''/''"
  "quote demo_runtime x = x"
  "filesystemencoding demo_runtime = ''utf-8''"
  "encode demo_runtime x = Inr x"
  "not_modified_since demo_runtime v mt = Inr (v = ''Fri, 01 Jan 2100 00:00:00 GMT'')"
  by (simp_all add: demo_runtime_def)

lemma single_line_replace_char:
  "single_line r \<Longrightarrow> single_line (replace_char LF r x)"
  by (induction x) (simp_all add: replace_char_def)

lemma library_lines_demo: "library_lines demo_runtime"
proof -
  have a: "single_line (replace_char LF [CHR 0x5C, CHR ''n''] x)" for x
    by (rule single_line_replace_char) (simp add: LF_def)
  have b: "single_line (replace_char LF [] x)" for x
    by (rule single_line_replace_char) simp
  show ?thesis
    unfolding library_lines_def
    by (simp add: demo_runtime_sel a [unfolded LF_def] b [unfolded LF_def] LF_def)
qed

lemma request_of_sel:
  "raw_requestline (request_of l) = l @ CRLF" "header_lines (request_of l) = Headers []"
  "raw_requestline (request_with l hs) = l @ CRLF"
  "header_lines (request_with l hs) = Headers hs"
  by (simp_all add: request_of_def request_with_def)

lemma str_of_nat_values:
  "str_of_nat 0 = ''0''" "str_of_nat 5 = ''5''" "str_of_nat 6 = ''6''" "str_of_nat 9 = ''9''"
  "str_of_nat 4 = ''4''"
  "str_of_nat 200 = ''200''" "str_of_nat 400 = ''400''" "str_of_nat 404 = ''404''"
  "str_of_nat 501 = ''501''"
  by (simp_all add: str_of_nat.simps char_of_eq_iff)

lemma parse_get_index_09:
  "parse_request demo_runtime (request_of ''GET /index.html'') new_handler =
     (None, True,
      \<lparr>command = Some ''GET'', path = ''/index.html'', request_version = ''HTTP/0.9'',
       requestline = ''GET /index.html'', headers = [], close_connection = True,
       headers_buffer = None, wfile = []\<rparr>)"
  by (simp add: parse_defs request_of_sel string_defs Let_def)

lemma parse_get_index_11:
  "parse_request demo_runtime (request_of ''GET /index.html HTTP/1.1'') new_handler =
     (None, True, parsed ''GET'' ''/index.html'' ''HTTP/1.1'')"
  by (simp add: parse_defs parsed_def request_of_sel string_defs Let_def)

lemma parse_get_nothing_10:
  "parse_request demo_runtime (request_of ''GET /nothing HTTP/1.0'') new_handler =
     (None, True, parsed ''GET'' ''/nothing'' ''HTTP/1.0'')"
  by (simp add: parse_defs parsed_def request_of_sel string_defs Let_def)


lemma parse_options_index_11:
  "parse_request demo_runtime (request_of ''OPTIONS /index.html HTTP/1.1'') new_handler =
     (None, True, parsed ''OPTIONS'' ''/index.html'' ''HTTP/1.1'')"
  by (simp add: parse_defs parsed_def request_of_sel string_defs Let_def)

lemma parse_options_index_09:
  "parse_request demo_runtime (request_of ''OPTIONS /index.html HTTP/0.9'') new_handler =
     (None, True, parsed ''OPTIONS'' ''/index.html'' ''HTTP/0.9'')"
  by (simp add: parse_defs parsed_def request_of_sel string_defs Let_def)

lemma parse_get_nothing_09:
  "parse_request demo_runtime (request_of ''GET /nothing'') new_handler =
     (None, True,
      \<lparr>command = Some ''GET'', path = ''/nothing'', request_version = ''HTTP/0.9'',
       requestline = ''GET /nothing'', headers = [], close_connection = True,
       headers_buffer = None, wfile = []\<rparr>)"
  by (simp add: parse_defs request_of_sel string_defs Let_def)

lemma parse_get_late_10:
  "parse_request demo_runtime (request_of ''GET /late.txt HTTP/1.0'') new_handler =
     (None, True, parsed ''GET'' ''/late.txt'' ''HTTP/1.0'')"
  by (simp add: parse_defs parsed_def request_of_sel string_defs Let_def)

lemma parse_get_null_10:
  "parse_request demo_runtime (request_of (''GET /a'' @ [CHR 0x00] @ ''b HTTP/1.0''))
     new_handler =
     (None, True, (parsed ''GET'' (''/a'' @ [CHR 0x00] @ ''b'') ''HTTP/1.0''))"
  by (simp add: parse_defs parsed_def request_of_sel string_defs Let_def)

lemma parse_get_index_since:
  "parse_request demo_runtime
     (request_with ''GET /index.html HTTP/1.1''
        [(''If-Modified-Since'', ''Fri, 01 Jan 2100 00:00:00 GMT'')]) new_handler =
     (None, True,
      (parsed ''GET'' ''/index.html'' ''HTTP/1.1'')
        \<lparr>headers := [(''If-Modified-Since'', ''Fri, 01 Jan 2100 00:00:00 GMT'')]\<rparr>)"
  by (simp add: parse_defs parsed_def request_of_sel string_defs Let_def)

lemma new_handler_sel: "wfile new_handler = []" "buffered new_handler = []"
  by (simp_all add: new_handler_def buffered_def)

lemma parsed_sel:
  "command (parsed c t v) = Some c" "path (parsed c t v) = t"
  "request_version (parsed c t v) = v" "headers (parsed c t v) = []"
  "wfile (parsed c t v) = []" "buffered (parsed c t v) = []"
  by (simp_all add: parsed_def buffered_def)

lemma short_request [simp]:
  "length l \<le> 65000 \<Longrightarrow> length (raw_requestline (request_of l)) \<le> 65536"
  "length l \<le> 65000 \<Longrightarrow> length (raw_requestline (request_with l hs)) \<le> 65536"
  by (simp_all add: request_of_sel CRLF_def)

lemma no_headers [simp]: "\<not> header_in [] name"
  by (simp add: header_in_def header_get_def)

lemma parse_bad_version:
  "parse_request demo_runtime (request_of ''GET /index.html HTTP/1.x'') new_handler =
     (None, False,
      \<lparr>command = None, path = [], request_version = ''HTTP/0.9'',
       requestline = ''GET /index.html HTTP/1.x'', headers = [], close_connection = True,
       headers_buffer = None, wfile = ''Error 400''\<rparr>)"
  by (simp add: parse_defs request_of_sel string_defs Let_def send_error_def send_response_def
      send_response_only_def send_header_def end_headers_09 demo_runtime_sel str_of_nat_values
      split_beta)

lemma translate_demo:
  "translate_path demo_runtime ''/index.html'' = ''/srv/www/index.html''"
  "translate_path demo_runtime ''/nothing'' = ''/srv/www/nothing''"
  "translate_path demo_runtime ''/../../etc/passwd'' = ''/srv/www/etc/passwd''"
  "translate_path demo_runtime ''/late.txt'' = ''/srv/www/late.txt''"
  "translate_path demo_runtime [CHR ''/'', CHR ''a'', CHR 0x00, CHR ''b'']
     = ''/srv/www/a'' @ [CHR 0x00] @ ''b''"
  by (simp_all add: path_defs Let_def demo_runtime_sel string_defs)

lemma send_header_other:
  "length k \<noteq> 10 \<Longrightarrow>
   send_header k v s =
     (if request_version s \<noteq> ''HTTP/0.9''
      then s\<lparr>headers_buffer := Some (buffered s @ [header_line k v])\<rparr> else s)"
  by (simp add: send_header_def Let_def lower_not_connection)

lemma str_of_nat_nine:
  "str_of_nat (Suc (Suc (Suc (Suc (Suc (Suc (Suc (Suc (Suc 0))))))))) = ''9''"
  using str_of_nat_values(4) by (simp add: eval_nat_numeral)

lemma do_GET_09_missing:
  assumes "request_version s = ''HTTP/0.9''" and "command s = Some ''GET''"
      and "\<not> isdir E (translate_path E (path s))"
      and "open_rb E (translate_path E (path s)) = Inl OSError"
  shows "wfile (snd (do_GET E s)) =
           wfile s @ the (error_body E 404 (Some ''File not found'') None)"
proof -
  have "send_head E s = send_head_file E (translate_path E (path s)) s"
    using assms(3) by (simp add: send_head_def Let_def)
  then have "send_head E s =
      (None, None, snd (send_error E 404 (Some ''File not found'') None s))"
    using assms(4) by (simp add: send_head_file_def Let_def split_beta)
  then show ?thesis
    using assms(1,2) by (simp add: do_GET_def wfile_send_error error_body_def)
qed

lemma handle_get_index_09:
  "handle_one_request demo_runtime (request_of ''GET /index.html'') new_handler =
     (None,
      \<lparr>command = Some ''GET'', path = ''/index.html'', request_version = ''HTTP/0.9'',
       requestline = ''GET /index.html'', headers = [], close_connection = True,
       headers_buffer = None, wfile = ''hello''\<rparr>)"
proof -
  let ?s1 = "\<lparr>command = Some ''GET'', path = ''/index.html'', request_version = ''HTTP/0.9'',
       requestline = ''GET /index.html'', headers = [], close_connection = True,
       headers_buffer = None, wfile = []\<rparr>"
  have "handle_one_request demo_runtime (request_of ''GET /index.html'') new_handler
          = do_GET demo_runtime ?s1"
    using handle_one_request_dispatch(1) [OF parse_get_index_09, of "''GET''"] by simp
  moreover have "send_head demo_runtime ?s1 = send_head_file demo_runtime ''/srv/www/index.html'' ?s1"
    by (simp add: send_head_def Let_def translate_demo demo_runtime_sel)
  moreover have "send_head_file demo_runtime ''/srv/www/index.html'' ?s1 = (None, Some ''hello'', ?s1)"
    by (simp add: send_head_file_def Let_def demo_runtime_sel endswith_def end_headers_09
        send_response_def send_response_only_def send_header_other)
  ultimately show ?thesis
    by (simp add: do_GET_def)
qed

lemma handle_get_index_11:
  "\<exists>s'. handle_one_request demo_runtime (request_of ''GET /index.html HTTP/1.1'') new_handler
           = (None, s')
        \<and> request_version s' = ''HTTP/1.1''
        \<and> wfile s' = status_line 200 ''OK'' @ header_line ''Server'' ''SimpleHTTP/0.6''
            @ header_line ''Date'' ''now'' @ header_line ''Content-type'' ''text/html''
            @ header_line ''Content-Length'' ''5'' @ header_line ''Last-Modified'' ''then''
            @ cors_block @ CRLF @ ''hello''"
  using handle_get_regular [OF _ parse_get_index_11,
      of "\<lparr>contents = ''hello'', fstat = Inr \<lparr>st_size = 5, st_mtime = 0\<rparr>\<rparr>"
         "\<lparr>st_size = 5, st_mtime = 0\<rparr>" "''then''"]
  by (simp add: parsed_sel translate_demo demo_runtime_sel endswith_def phrase_def
      str_of_nat_values new_handler_def buffered_def)
subsection \<open>Auxiliary facts about the translation of paths\<close>

























subsection \<open>The CORS headers\<close>

text \<open>
  \<^bold>\<open>Claim C1\<close>, as amended. Take any request, handled by \<open>handle_one_request\<close> from any
  state of the handler. If the handler has written anything, and the request version it
  settled on is not \<open>HTTP/0.9\<close>, then what it has written is: a status line; headers
  whose keywords are among those of the base classes (\<open>Server\<close>, \<open>Date\<close>, \<open>Connection\<close>,
  \<open>Content-Type\<close> or \<open>Content-type\<close>, \<open>Content-Length\<close>, \<open>Location\<close>, \<open>Last-Modified\<close>);
  the three CORS header lines, with exactly these names and values, each once; the blank
  line that ends the header block; and the body. Where the library answers in single
  lines, the reason of the status line and the value of every header hold no line feed,
  so the blank line after the CORS lines is the first blank line of the response: the
  header block ends with the three CORS lines. This covers every status: 200, 301, 304,
  400, 404, 414, 431, 501.

  The request version is \<open>HTTP/0.9\<close> when the request line has two words
  (\<open>GET /path\<close>), when it names the version \<open>HTTP/0.9\<close>, and while the request
  line has not been parsed: a request line whose version is malformed or is 2.0 and above
  is answered under it. Such responses are not covered: the inherited
  \<open>send_response_only\<close>, \<open>send_header\<close> and \<open>end_headers\<close> do nothing under \<open>HTTP/0.9\<close>
  (the counterexample below shows one response with no header at all).
\<close>

theorem every_response_with_headers_has_cors:
  assumes "handle_one_request E rq s = (r, s')"
      and "request_version s' \<noteq> ''HTTP/0.9''" and "wfile s' \<noteq> wfile s"
  shows "\<exists>code message hs body.
           wfile s' = wfile s @ concat (buffered s) @ status_line code message
             @ header_block hs
             @ header_line ''Access-Control-Allow-Origin'' ''*''
             @ header_line ''Access-Control-Allow-Methods'' ''GET, POST, OPTIONS''
             @ header_line ''Access-Control-Allow-Headers'' ''Content-Type''
             @ CRLF @ body
           \<and> list_all (\<lambda>(k, v). k \<in> set base_keywords) hs
           \<and> (library_lines E \<longrightarrow>
                single_line message \<and> list_all (\<lambda>(k, v). single_line v) hs)"
  using handle_one_request_responds [OF assms]
  by (simp add: responds_def cors_block_def)

text \<open>Witness for C1: \<open>GET /index.html HTTP/1.1\<close> on the concrete machine, whose library
  answers in single lines.\<close>

theorem every_response_with_headers_has_cors_witness:
  "\<exists>code message hs body.
     wfile (snd (handle_one_request demo_runtime (request_of ''GET /index.html HTTP/1.1'')
                   new_handler))
       = status_line code message @ header_block hs
         @ header_line ''Access-Control-Allow-Origin'' ''*''
         @ header_line ''Access-Control-Allow-Methods'' ''GET, POST, OPTIONS''
         @ header_line ''Access-Control-Allow-Headers'' ''Content-Type''
         @ CRLF @ body
     \<and> list_all (\<lambda>(k, v). k \<in> set base_keywords) hs
     \<and> single_line message \<and> list_all (\<lambda>(k, v). single_line v) hs"
proof -
  obtain s' where h: "handle_one_request demo_runtime
        (request_of ''GET /index.html HTTP/1.1'') new_handler = (None, s')"
    and v: "request_version s' = ''HTTP/1.1''"
    and w: "wfile s' = status_line 200 ''OK'' @ header_line ''Server'' ''SimpleHTTP/0.6''
            @ header_line ''Date'' ''now'' @ header_line ''Content-type'' ''text/html''
            @ header_line ''Content-Length'' ''5'' @ header_line ''Last-Modified'' ''then''
            @ cors_block @ CRLF @ ''hello''"
    using handle_get_index_11 by blast
  have a: "request_version s' \<noteq> ''HTTP/0.9''"
    using v by simp
  have b: "wfile s' \<noteq> wfile new_handler"
    using w by (simp add: new_handler_def status_line_def protocol_version_def)
  show ?thesis
    using every_response_with_headers_has_cors [OF h a b] h library_lines_demo
    by (simp add: new_handler_def buffered_def)
qed

text \<open>Counterexample to C1 as stated: the request line \<open>GET /index.html\<close>, with no
  version, is answered with the five bytes of the file and nothing else.\<close>

theorem get_without_version_counterexample:
  "wfile (snd (handle_one_request demo_runtime (request_of ''GET /index.html'') new_handler))
     = ''hello''
   \<and> \<not> contains ''hello'' ''Access-Control-Allow-Origin''"
  by (simp add: handle_get_index_09 startswith_def)

text \<open>
  \<^bold>\<open>Claim C2\<close>, as amended. Whenever \<open>end_headers\<close> is called under a request version
  other than \<open>HTTP/0.9\<close>, it raises nothing and writes one block to the connection: the
  lines the base handler has buffered so far, then \<open>Access-Control-Allow-Origin\<close>, then
  \<open>Access-Control-Allow-Methods\<close>, then \<open>Access-Control-Allow-Headers\<close>, then the blank
  line. Nothing of the block was written before, the buffer is empty afterwards, and
  no other attribute of the handler changes. (Under \<open>HTTP/0.9\<close> nothing is appended and
  nothing is sent: see C1 and the counterexample below.)
\<close>

theorem end_headers_appends_cors_last:
  assumes "request_version s \<noteq> ''HTTP/0.9''"
  shows "end_headers s =
           (None,
            s\<lparr>headers_buffer := Some [],
              wfile := wfile s @ concat (buffered s)
                       @ header_line ''Access-Control-Allow-Origin'' ''*''
                       @ header_line ''Access-Control-Allow-Methods'' ''GET, POST, OPTIONS''
                       @ header_line ''Access-Control-Allow-Headers'' ''Content-Type''
                       @ CRLF\<rparr>)"
  using end_headers_eq [OF assms] .

text \<open>Witness for C2: the base handler has buffered a status line and one header.\<close>

theorem end_headers_appends_cors_last_witness:
  "end_headers (send_header ''Content-Length'' ''0''
                 (send_response_only demo_runtime 200 None (parsed ''GET'' ''/'' ''HTTP/1.1''))) =
     (None,
      (parsed ''GET'' ''/'' ''HTTP/1.1'')
        \<lparr>headers_buffer := Some [],
         wfile := status_line 200 ''OK'' @ header_line ''Content-Length'' ''0''
                  @ header_line ''Access-Control-Allow-Origin'' ''*''
                  @ header_line ''Access-Control-Allow-Methods'' ''GET, POST, OPTIONS''
                  @ header_line ''Access-Control-Allow-Headers'' ''Content-Type''
                  @ CRLF\<rparr>)"
proof -
  let ?s = "send_header ''Content-Length'' ''0''
             (send_response_only demo_runtime 200 None (parsed ''GET'' ''/'' ''HTTP/1.1''))"
  have v: "request_version ?s \<noteq> ''HTTP/0.9''"
    by (simp add: parsed_sel)
  show ?thesis
    using end_headers_appends_cors_last [OF v]
    by (simp add: send_header_other send_response_only_def parsed_def buffered_def
        demo_runtime_sel)
qed

text \<open>Counterexample to C2 as stated: the request line \<open>GET /index.html HTTP/1.x\<close> is
  answered with the error page for status 400 alone; no header is appended to it.\<close>

theorem bad_version_counterexample:
  "handle_one_request demo_runtime (request_of ''GET /index.html HTTP/1.x'') new_handler =
     (None,
      \<lparr>command = None, path = [], request_version = ''HTTP/0.9'',
       requestline = ''GET /index.html HTTP/1.x'', headers = [], close_connection = True,
       headers_buffer = None, wfile = ''Error 400''\<rparr>)
   \<and> \<not> contains ''Error 400'' ''Access-Control-Allow-Origin''"
  by (simp add: handle_one_request_def parse_bad_version request_of_sel CRLF_def
      startswith_def)

subsection \<open>Serving files\<close>

text \<open>
  \<^bold>\<open>Claim C4\<close>, as amended. Take a request that the parser accepts, with the method
  \<open>GET\<close> or \<open>HEAD\<close> and a version other than \<open>HTTP/0.9\<close>, whose path translates to a
  path that is not a directory, does not end in a slash and can be opened; \<open>os.fstat\<close>,
  the comparison with \<open>If-Modified-Since\<close> and the formatting of the time of
  modification raise nothing; and the test of \<open>If-Modified-Since\<close> does not apply or
  finds the file modified since. Then the response is the status line with
  code 200, the headers \<open>Server\<close>, \<open>Date\<close>, \<open>Content-type\<close>, \<open>Content-Length\<close> and
  \<open>Last-Modified\<close>, the three CORS headers, the blank line, and then, for \<open>GET\<close>, the
  bytes of the file and nothing more; for \<open>HEAD\<close>, nothing.
\<close>

theorem get_serves_file_bytes:
  assumes "length (raw_requestline rq) \<le> 65536"
      and "parse_request E rq s = (None, True, s1)"
      and "command s1 = Some ''GET'' \<or> command s1 = Some ''HEAD''"
      and "request_version s1 \<noteq> ''HTTP/0.9''"
      and "\<not> isdir E (translate_path E (path s1))"
      and "\<not> endswith (translate_path E (path s1)) ''/''"
      and "open_rb E (translate_path E (path s1)) = Inr f"
      and "fstat f = Inr fs"
      and "(if header_in (headers s1) ''If-Modified-Since''
               \<and> \<not> header_in (headers s1) ''If-None-Match''
            then not_modified_since E (the (header_get (headers s1) ''If-Modified-Since''))
                   (st_mtime fs)
            else Inr False) = Inr False"
      and "date_time_string E (st_mtime fs) = Inr last_modified"
  shows "\<exists>s'. handle_one_request E rq s = (None, s')
           \<and> wfile s' = wfile s @ concat (buffered s)
               @ status_line 200 (phrase E 200 None)
               @ header_line ''Server'' (version_string E)
               @ header_line ''Date'' (date_time_now E)
               @ header_line ''Content-type'' (guess_type E (translate_path E (path s1)))
               @ header_line ''Content-Length'' (str_of_nat (st_size fs))
               @ header_line ''Last-Modified'' last_modified
               @ cors_block @ CRLF
               @ (if command s1 = Some ''GET'' then contents f else [])"
  using handle_get_regular [OF assms] by auto

text \<open>Witness for C4: \<open>GET /index.html HTTP/1.1\<close>; the body is \<open>hello\<close>.\<close>

theorem get_serves_file_bytes_witness:
  "\<exists>s'. handle_one_request demo_runtime (request_of ''GET /index.html HTTP/1.1'') new_handler
           = (None, s')
        \<and> wfile s' = status_line 200 ''OK'' @ header_line ''Server'' ''SimpleHTTP/0.6''
            @ header_line ''Date'' ''now'' @ header_line ''Content-type'' ''text/html''
            @ header_line ''Content-Length'' ''5'' @ header_line ''Last-Modified'' ''then''
            @ cors_block @ CRLF @ ''hello''"
  using get_serves_file_bytes [OF _ parse_get_index_11,
      of "\<lparr>contents = ''hello'', fstat = Inr \<lparr>st_size = 5, st_mtime = 0\<rparr>\<rparr>"
         "\<lparr>st_size = 5, st_mtime = 0\<rparr>" "''then''"]
  by (simp add: parsed_sel translate_demo demo_runtime_sel endswith_def phrase_def
      str_of_nat_values new_handler_def buffered_def)

text \<open>Counterexample to C4 as stated. The file \<open>index.html\<close> exists and holds \<open>hello\<close>.
  A \<open>GET\<close> request for it with the header \<open>If-Modified-Since\<close> and a date after the
  time of its modification is answered with status 304 and no body. A \<open>GET\<close> request for
  it with no version is answered with the five bytes alone: no status is sent. And the
  file \<open>late.txt\<close> exists, but its time of modification cannot be formatted:
  \<open>send_head\<close> raises \<open>ValueError\<close> and nothing is written.\<close>

theorem conditional_get_counterexample:
  "open_rb demo_runtime (translate_path demo_runtime ''/index.html'')
     = Inr \<lparr>contents = ''hello'', fstat = Inr \<lparr>st_size = 5, st_mtime = 0\<rparr>\<rparr>
   \<and> wfile (snd (handle_one_request demo_runtime
                   (request_with ''GET /index.html HTTP/1.1''
                      [(''If-Modified-Since'', ''Fri, 01 Jan 2100 00:00:00 GMT'')])
                   new_handler))
       = status_line 304 [] @ header_line ''Server'' ''SimpleHTTP/0.6''
         @ header_line ''Date'' ''now'' @ cors_block @ CRLF
   \<and> wfile (snd (handle_one_request demo_runtime (request_of ''GET /index.html'')
                   new_handler)) = ''hello''
   \<and> open_rb demo_runtime (translate_path demo_runtime ''/late.txt'')
       = Inr \<lparr>contents = ''late'', fstat = Inr \<lparr>st_size = 4, st_mtime = 274877906944\<rparr>\<rparr>
   \<and> fst (handle_one_request demo_runtime (request_of ''GET /late.txt HTTP/1.0'')
            new_handler) = Some ValueError
   \<and> wfile (snd (handle_one_request demo_runtime (request_of ''GET /late.txt HTTP/1.0'')
                   new_handler)) = []"
proof -
  have a: "wfile (snd (handle_one_request demo_runtime
                   (request_with ''GET /index.html HTTP/1.1''
                      [(''If-Modified-Since'', ''Fri, 01 Jan 2100 00:00:00 GMT'')])
                   new_handler))
       = status_line 304 [] @ header_line ''Server'' ''SimpleHTTP/0.6''
         @ header_line ''Date'' ''now'' @ cors_block @ CRLF"
    using handle_get_not_modified [OF _ parse_get_index_since,
        of "\<lparr>contents = ''hello'', fstat = Inr \<lparr>st_size = 5, st_mtime = 0\<rparr>\<rparr>"
           "\<lparr>st_size = 5, st_mtime = 0\<rparr>"]
    by (auto simp: parsed_sel translate_demo demo_runtime_sel endswith_def phrase_def
        new_handler_def buffered_def header_in_def header_get_def lower_def lower_char_def
        char_of_eq_iff)
  obtain s2 where s2: "send_head demo_runtime (parsed ''GET'' ''/late.txt'' ''HTTP/1.0'')
        = (Some ValueError, None, s2)"
    and w2: "wfile s2 = wfile (parsed ''GET'' ''/late.txt'' ''HTTP/1.0'')"
    using send_head_date_raises [of demo_runtime "parsed ''GET'' ''/late.txt'' ''HTTP/1.0''"
        "\<lparr>contents = ''late'', fstat = Inr \<lparr>st_size = 4, st_mtime = 274877906944\<rparr>\<rparr>"
        "\<lparr>st_size = 4, st_mtime = 274877906944\<rparr>" ValueError]
    by (auto simp: parsed_sel translate_demo demo_runtime_sel endswith_def)
  have b: "handle_one_request demo_runtime (request_of ''GET /late.txt HTTP/1.0'')
             new_handler = (Some ValueError, s2) \<and> wfile s2 = wfile new_handler"
    using handle_get_raises [OF _ parse_get_late_10 _ s2 w2] by (simp add: parsed_sel)
  show ?thesis
    using a b by (simp add: handle_get_index_09 translate_demo demo_runtime_sel new_handler_sel)
qed

text \<open>
  \<^bold>\<open>Claim C5\<close>, as amended. Take a request that the parser accepts, with the method
  \<open>GET\<close> or \<open>HEAD\<close> and a version other than \<open>HTTP/0.9\<close>, whose path translates to a
  path that is not a directory and that \<open>open\<close> refuses with an \<open>OSError\<close> (as it does
  for a path that does not exist). Then the response has the status line
  \<open>404 File not found\<close>, the headers of an error response, the three CORS headers and the
  blank line; the error page follows for \<open>GET\<close>, and nothing follows for \<open>HEAD\<close>.
\<close>

theorem missing_path_gives_404:
  assumes "length (raw_requestline rq) \<le> 65536"
      and "parse_request E rq s = (None, True, s1)"
      and "command s1 = Some ''GET'' \<or> command s1 = Some ''HEAD''"
      and "request_version s1 \<noteq> ''HTTP/0.9''"
      and "\<not> isdir E (translate_path E (path s1))"
      and "open_rb E (translate_path E (path s1)) = Inl OSError"
  shows "\<exists>s'. handle_one_request E rq s = (None, s')
           \<and> wfile s' = wfile s @ concat (buffered s)
               @ status_line 404 ''File not found''
               @ header_line ''Server'' (version_string E)
               @ header_line ''Date'' (date_time_now E)
               @ header_line ''Connection'' ''close''
               @ header_line ''Content-Type'' error_content_type
               @ header_line ''Content-Length''
                   (str_of_nat (length (the (error_body E 404 (Some ''File not found'') None))))
               @ cors_block @ CRLF
               @ (if command s1 = Some ''GET''
                  then the (error_body E 404 (Some ''File not found'') None) else [])"
proof -
  have "handle_one_request E rq s =
          (None, snd (send_error E 404 (Some ''File not found'') None s1))"
    using handle_missing [OF assms] .
  moreover have "wfile s1 = wfile s" "buffered s1 = buffered s"
    using parse_request_resp [OF assms(2)] by simp_all
  ultimately show ?thesis
    using wfile_send_error_full [OF assms(4), of 404 E "''File not found''"] assms(3)
    by auto
qed

text \<open>Witness for C5: \<open>GET /nothing HTTP/1.0\<close>.\<close>

theorem missing_path_gives_404_witness:
  "\<exists>s'. handle_one_request demo_runtime (request_of ''GET /nothing HTTP/1.0'') new_handler
           = (None, s')
        \<and> wfile s' = status_line 404 ''File not found''
            @ header_line ''Server'' ''SimpleHTTP/0.6'' @ header_line ''Date'' ''now''
            @ header_line ''Connection'' ''close''
            @ header_line ''Content-Type'' ''text/html;charset=utf-8''
            @ header_line ''Content-Length'' ''9''
            @ cors_block @ CRLF @ ''Error 404''"
  using missing_path_gives_404 [OF _ parse_get_nothing_10]
  by (simp add: parsed_sel translate_demo demo_runtime_sel error_body_def
      str_of_nat_values str_of_nat_nine new_handler_def buffered_def error_content_type_def)

text \<open>Counterexample to C5 as stated. Nothing exists at \<open>/srv/www/nothing\<close>, and the
  request line \<open>GET /nothing\<close>, with no version, is answered with the error page alone:
  no status is sent. Nothing exists at a path with a null character either, but \<open>open\<close>
  raises \<open>ValueError\<close> on it, which \<open>send_head\<close> does not catch: nothing is written.\<close>

theorem get_missing_without_version_counterexample:
  "\<not> isdir demo_runtime (translate_path demo_runtime ''/nothing'')
   \<and> \<not> isfile demo_runtime (translate_path demo_runtime ''/nothing'')
   \<and> open_rb demo_runtime (translate_path demo_runtime ''/nothing'') = Inl OSError
   \<and> wfile (snd (handle_one_request demo_runtime (request_of ''GET /nothing'') new_handler))
       = ''Error 404''
   \<and> \<not> isdir demo_runtime (translate_path demo_runtime (''/a'' @ [CHR 0x00] @ ''b''))
   \<and> \<not> isfile demo_runtime (translate_path demo_runtime (''/a'' @ [CHR 0x00] @ ''b''))
   \<and> handle_one_request demo_runtime
        (request_of (''GET /a'' @ [CHR 0x00] @ ''b HTTP/1.0'')) new_handler
       = (Some ValueError, parsed ''GET'' (''/a'' @ [CHR 0x00] @ ''b'') ''HTTP/1.0'')
   \<and> wfile (parsed ''GET'' (''/a'' @ [CHR 0x00] @ ''b'') ''HTTP/1.0'') = []"
proof -
  let ?s1 = "\<lparr>command = Some ''GET'', path = ''/nothing'', request_version = ''HTTP/0.9'',
       requestline = ''GET /nothing'', headers = [], close_connection = True,
       headers_buffer = None, wfile = []\<rparr>"
  have "handle_one_request demo_runtime (request_of ''GET /nothing'') new_handler
          = do_GET demo_runtime ?s1"
    using handle_one_request_dispatch(1) [OF parse_get_nothing_09, of "''GET''"] by simp
  then have a: "wfile (snd (handle_one_request demo_runtime (request_of ''GET /nothing'')
                  new_handler)) = ''Error 404''"
    using do_GET_09_missing [of ?s1 demo_runtime]
    by (simp add: translate_demo demo_runtime_sel error_body_def str_of_nat_values)
  have "send_head demo_runtime (parsed ''GET'' (''/a'' @ [CHR 0x00] @ ''b'') ''HTTP/1.0'')
          = (Some ValueError, None, parsed ''GET'' (''/a'' @ [CHR 0x00] @ ''b'') ''HTTP/1.0'')"
    by (rule send_head_open_raises)
       (simp_all add: parsed_sel translate_demo demo_runtime_sel endswith_def)
  then have b: "handle_one_request demo_runtime
        (request_of (''GET /a'' @ [CHR 0x00] @ ''b HTTP/1.0'')) new_handler
       = (Some ValueError, parsed ''GET'' (''/a'' @ [CHR 0x00] @ ''b'') ''HTTP/1.0'')"
    using handle_get_raises [OF _ parse_get_null_10] by (simp add: parsed_sel)
  show ?thesis
    using a b by (simp add: translate_demo demo_runtime_sel parsed_sel)
qed




subsection \<open>Methods the handler does not have\<close>

text \<open>
  \<^bold>\<open>Claim C10\<close>, as amended. Every request that the parser accepts with the method
  \<open>OPTIONS\<close> and a version other than \<open>HTTP/0.9\<close> gets the response of \<open>send_error\<close> for
  status 501, with the reason \<open>Unsupported method ('OPTIONS')\<close>; the header block of that
  very response has the line \<open>Access-Control-Allow-Methods: GET, POST, OPTIONS\<close>. The
  class defines \<open>end_headers\<close> only, so the dispatch of \<open>handle_one_request\<close> finds
  \<open>do_GET\<close> and \<open>do_HEAD\<close> and nothing else.
\<close>

theorem options_gets_501:
  assumes "length (raw_requestline rq) \<le> 65536"
      and "parse_request E rq s = (None, True, s1)"
      and "command s1 = Some ''OPTIONS''"
      and "request_version s1 \<noteq> ''HTTP/0.9''"
  shows "\<exists>s'. handle_one_request E rq s = (None, s')
           \<and> wfile s' = wfile s @ concat (buffered s)
               @ status_line 501 (''Unsupported method ('' @ repr E ''OPTIONS'' @ '')'')
               @ header_line ''Server'' (version_string E)
               @ header_line ''Date'' (date_time_now E)
               @ header_line ''Connection'' ''close''
               @ header_line ''Content-Type'' error_content_type
               @ header_line ''Content-Length''
                   (str_of_nat (length (the (error_body E 501
                      (Some (''Unsupported method ('' @ repr E ''OPTIONS'' @ '')'')) None))))
               @ header_line ''Access-Control-Allow-Origin'' ''*''
               @ header_line ''Access-Control-Allow-Methods'' ''GET, POST, OPTIONS''
               @ header_line ''Access-Control-Allow-Headers'' ''Content-Type''
               @ CRLF
               @ the (error_body E 501
                      (Some (''Unsupported method ('' @ repr E ''OPTIONS'' @ '')'')) None)"
proof -
  have "handle_one_request E rq s =
          (None, snd (send_error E 501
             (Some (''Unsupported method ('' @ repr E ''OPTIONS'' @ '')'')) None s1))"
    using handle_unsupported [OF assms(1-3)] by simp
  moreover have "wfile s1 = wfile s" "buffered s1 = buffered s"
    using parse_request_resp [OF assms(2)] by simp_all
  ultimately show ?thesis
    using wfile_send_error_full [OF assms(4), of 501 E
        "''Unsupported method ('' @ repr E ''OPTIONS'' @ '')''"] assms(3)
    by (auto simp: cors_block_def)
qed

text \<open>Witness for C10: \<open>OPTIONS /index.html HTTP/1.1\<close>.\<close>

theorem options_gets_501_witness:
  "\<exists>s'. handle_one_request demo_runtime (request_of ''OPTIONS /index.html HTTP/1.1'')
              new_handler = (None, s')
        \<and> wfile s' =
            status_line 501 (''Unsupported method ('' @ [CHR 0x27] @ ''OPTIONS'' @ [CHR 0x27] @ '')'')
            @ header_line ''Server'' ''SimpleHTTP/0.6'' @ header_line ''Date'' ''now''
            @ header_line ''Connection'' ''close''
            @ header_line ''Content-Type'' ''text/html;charset=utf-8''
            @ header_line ''Content-Length'' ''9''
            @ header_line ''Access-Control-Allow-Origin'' ''*''
            @ header_line ''Access-Control-Allow-Methods'' ''GET, POST, OPTIONS''
            @ header_line ''Access-Control-Allow-Headers'' ''Content-Type''
            @ CRLF @ ''Error 501''"
  using options_gets_501 [OF _ parse_options_index_11]
  by (simp add: parsed_sel demo_runtime_sel error_body_def replace_char_def LF_def
      str_of_nat_values str_of_nat_nine new_handler_def buffered_def error_content_type_def)

text \<open>Counterexample to C10 as stated ("every OPTIONS request"): the parser accepts the
  request line \<open>OPTIONS /index.html HTTP/0.9\<close>, and the answer is the error page alone:
  no status line, and no \<open>Access-Control-Allow-Methods\<close> header.\<close>

theorem options_without_headers_counterexample:
  "parse_request demo_runtime (request_of ''OPTIONS /index.html HTTP/0.9'') new_handler =
     (None, True, parsed ''OPTIONS'' ''/index.html'' ''HTTP/0.9'')
   \<and> wfile (snd (handle_one_request demo_runtime
                   (request_of ''OPTIONS /index.html HTTP/0.9'') new_handler))
       = ''Error 501''
   \<and> \<not> contains ''Error 501'' ''Access-Control-Allow-Methods''"
  using handle_unsupported [OF _ parse_options_index_09, of "''OPTIONS''"]
    wfile_send_error [of demo_runtime 501
      "Some (''Unsupported method ('' @ repr demo_runtime ''OPTIONS'' @ '')'')" None
      "parsed ''OPTIONS'' ''/index.html'' ''HTTP/0.9''"]
  by (simp add: parse_options_index_09 parsed_sel error_body_def demo_runtime_sel
      str_of_nat_values startswith_def)
end
